theory Spec2Isabelle
  imports Main
begin

section \<open>Go strings, bytes and runes\<close>

text \<open>
  A Go \<open>string\<close> is an immutable sequence of bytes and a \<open>[]byte\<close> is a mutable one; the
  conversions \<open>[]byte(s)\<close> and \<open>string(b)\<close> keep the bytes. A \<^typ>\<open>char\<close> is an 8-bit
  byte, so both are modelled as \<^typ>\<open>string\<close>. The functions of this section are those of
  Go's standard library (\<open>unicode/utf8\<close>, \<open>unicode\<close>, \<open>strings\<close>) that the SDK calls.
\<close>

type_synonym bytes = "char list"
type_synonym rune = nat

definition byte :: "char \<Rightarrow> nat" where
  "byte c = of_char c"

definition RuneError :: rune where
  "RuneError = 0xFFFD"

definition RuneSelf :: nat where
  "RuneSelf = 0x80"

text \<open>
  \<open>utf8.first\<close> together with \<open>utf8.acceptRanges\<close>: for a leading byte of a multi-byte
  sequence, the length of the sequence and the range the second byte must lie in;
  \<open>None\<close> for a byte that cannot start a multi-byte sequence.
\<close>

definition lead :: "nat \<Rightarrow> (nat \<times> nat \<times> nat) option" where
  "lead b =
     (if 0xC2 \<le> b \<and> b \<le> 0xDF then Some (2, 0x80, 0xBF)
      else if b = 0xE0 then Some (3, 0xA0, 0xBF)
      else if 0xE1 \<le> b \<and> b \<le> 0xEC then Some (3, 0x80, 0xBF)
      else if b = 0xED then Some (3, 0x80, 0x9F)
      else if b = 0xEE \<or> b = 0xEF then Some (3, 0x80, 0xBF)
      else if b = 0xF0 then Some (4, 0x90, 0xBF)
      else if 0xF1 \<le> b \<and> b \<le> 0xF3 then Some (4, 0x80, 0xBF)
      else if b = 0xF4 then Some (4, 0x80, 0x8F)
      else None)"

definition cont :: "nat \<Rightarrow> bool" where
  "cont b = (0x80 \<le> b \<and> b \<le> 0xBF)"

text \<open>\<open>utf8.DecodeRuneInString\<close>: the first rune of \<open>s\<close> and its width in bytes.\<close>

definition DecodeRuneInString :: "string \<Rightarrow> rune \<times> nat" where
  "DecodeRuneInString s =
     (case s of
        [] \<Rightarrow> (RuneError, 0)
      | c0 # t0 \<Rightarrow>
          if byte c0 < RuneSelf then (byte c0, 1)
          else (case lead (byte c0) of
              None \<Rightarrow> (RuneError, 1)
            | Some (sz, lo, hi) \<Rightarrow>
                if length s < sz then (RuneError, 1)
                else (case t0 of
                    [] \<Rightarrow> (RuneError, 1)
                  | c1 # t1 \<Rightarrow>
                      if byte c1 < lo \<or> hi < byte c1 then (RuneError, 1)
                      else if sz \<le> 2 then (byte c0 mod 32 * 64 + byte c1 mod 64, 2)
                      else (case t1 of
                          [] \<Rightarrow> (RuneError, 1)
                        | c2 # t2 \<Rightarrow>
                            if \<not> cont (byte c2) then (RuneError, 1)
                            else if sz \<le> 3 then
                              (byte c0 mod 16 * 4096 + byte c1 mod 64 * 64 + byte c2 mod 64, 3)
                            else (case t2 of
                                [] \<Rightarrow> (RuneError, 1)
                              | c3 # t3 \<Rightarrow>
                                  if \<not> cont (byte c3) then (RuneError, 1)
                                  else (byte c0 mod 8 * 262144 + byte c1 mod 64 * 4096
                                        + byte c2 mod 64 * 64 + byte c3 mod 64, 4))))))"

text \<open>
  \<open>[]rune(s)\<close>: the runes of \<open>s\<close>, every byte that is not part of a well-formed UTF-8
  sequence giving one \<open>RuneError\<close>.
\<close>

fun runes :: "string \<Rightarrow> rune list" where
  "runes [] = []"
| "runes (c # cs) =
     (case DecodeRuneInString (c # cs) of (r, sz) \<Rightarrow> r # runes (drop (sz - 1) cs))"

text \<open>\<open>runeLen\<close> (client.go): \<open>len([]rune(s))\<close>.\<close>

definition runeLen :: "string \<Rightarrow> nat" where
  "runeLen s = length (runes s)"

text \<open>
  \<open>utf8.ValidRune\<close> and \<open>utf8.AppendRune\<close>: the code points that can be encoded (the
  surrogates and the values beyond \<open>U+10FFFF\<close> cannot) and the UTF-8 encoding of one; a
  Go string holding a text is the concatenation of the encodings of its code points.
\<close>

definition ValidRune :: "rune \<Rightarrow> bool" where
  "ValidRune r = (r < 0xD800 \<or> (0xE000 \<le> r \<and> r \<le> 0x10FFFF))"

definition EncodeRune :: "rune \<Rightarrow> string" where
  "EncodeRune r =
     (if r \<le> 0x7F then [char_of r]
      else if r \<le> 0x7FF then [char_of (0xC0 + r div 64), char_of (0x80 + r mod 64)]
      else if \<not> ValidRune r then [CHR 0xEF, CHR 0xBF, CHR 0xBD]
      else if r \<le> 0xFFFF then
        [char_of (0xE0 + r div 4096), char_of (0x80 + r div 64 mod 64), char_of (0x80 + r mod 64)]
      else
        [char_of (0xF0 + r div 262144), char_of (0x80 + r div 4096 mod 64),
         char_of (0x80 + r div 64 mod 64), char_of (0x80 + r mod 64)])"

text \<open>\<open>utf8.RuneStart\<close>: the byte is not a continuation byte.\<close>

definition RuneStart :: "nat \<Rightarrow> bool" where
  "RuneStart b = (\<not> cont b)"

text \<open>
  The backward scan of \<open>utf8.DecodeLastRuneInString\<close>:
  \<^verbatim>\<open>for start--; start >= lim; start-- { if RuneStart(s[start]) { break } }\<close>,
  entered with \<open>start\<close> already decremented.
\<close>

function scanStart :: "string \<Rightarrow> int \<Rightarrow> int \<Rightarrow> int" where
  "scanStart s lim start =
     (if lim \<le> start then
        (if RuneStart (byte (s ! nat start)) then start else scanStart s lim (start - 1))
      else start)"
  by pat_completeness auto
termination
  by (relation "measure (\<lambda>(s, lim, start). nat (start - lim + 1))") auto

declare scanStart.simps [simp del]

text \<open>\<open>utf8.DecodeLastRuneInString\<close>: the last rune of \<open>s\<close> and its width.\<close>

definition DecodeLastRuneInString :: "string \<Rightarrow> rune \<times> nat" where
  "DecodeLastRuneInString s =
     (let n = int (length s) in
      if n = 0 then (RuneError, 0)
      else if byte (s ! nat (n - 1)) < RuneSelf then (byte (s ! nat (n - 1)), 1)
      else
        (let lim = (if n - 4 < 0 then 0 else n - 4);
             start0 = scanStart s lim (n - 2);
             start = (if start0 < 0 then 0 else start0)
         in case DecodeRuneInString (drop (nat start) s) of
              (r, wid) \<Rightarrow> if start + int wid \<noteq> n then (RuneError, 1) else (r, wid)))"

text \<open>\<open>unicode.IsSpace\<close>: the Latin-1 cases and the \<open>White_Space\<close> table beyond them.\<close>

definition IsSpace :: "rune \<Rightarrow> bool" where
  "IsSpace r =
     (if r \<le> 0xFF then
        (r = 0x09 \<or> r = 0x0A \<or> r = 0x0B \<or> r = 0x0C \<or> r = 0x0D \<or> r = 0x20
         \<or> r = 0x85 \<or> r = 0xA0)
      else
        (r = 0x1680 \<or> (0x2000 \<le> r \<and> r \<le> 0x200A) \<or> r = 0x2028 \<or> r = 0x2029
         \<or> r = 0x202F \<or> r = 0x205F \<or> r = 0x3000))"

text \<open>\<open>strings.asciiSpace\<close>: tab, newline, vertical tab, form feed, carriage return, space.\<close>

definition asciiSpace :: "char \<Rightarrow> bool" where
  "asciiSpace c =
     (byte c = 0x09 \<or> byte c = 0x0A \<or> byte c = 0x0B \<or> byte c = 0x0C \<or> byte c = 0x0D
      \<or> byte c = 0x20)"

text \<open>
  \<open>strings.TrimLeftFunc\<close>: \<open>indexFunc(s, f, false)\<close> walks the runes of \<open>s\<close> from the
  left and stops at the first one that \<open>f\<close> rejects; the result starts there.
\<close>

fun TrimLeftFunc :: "string \<Rightarrow> (rune \<Rightarrow> bool) \<Rightarrow> string" where
  "TrimLeftFunc [] f = []"
| "TrimLeftFunc (c # cs) f =
     (case DecodeRuneInString (c # cs) of
        (r, sz) \<Rightarrow> if f r then TrimLeftFunc (drop (sz - 1) cs) f else c # cs)"

text \<open>The backward decoder consumes at least one byte of a non-empty string.\<close>

lemma scanStart_le: "scanStart s lim start \<le> start"
  by (induction s lim start rule: scanStart.induct) (subst scanStart.simps, force)

lemma DecodeLast_wid:
  assumes "s \<noteq> []"
  shows "1 \<le> snd (DecodeLastRuneInString s)"
proof -
  define n where "n = int (length s)"
  define lim where "lim = (if n - 4 < 0 then 0 else n - 4)"
  define start0 where "start0 = scanStart s lim (n - 2)"
  define start where "start = (if start0 < 0 then 0 else start0)"
  have n: "0 < n" using assms by (simp add: n_def)
  have "start0 \<le> n - 2" unfolding start0_def by (rule scanStart_le)
  then have st: "start < n" using n by (simp add: start_def)
  obtain r wid where d: "DecodeRuneInString (drop (nat start) s) = (r, wid)"
    by (cases "DecodeRuneInString (drop (nat start) s)")
  have eq: "DecodeLastRuneInString s =
     (if n = 0 then (RuneError, 0)
      else if byte (s ! nat (n - 1)) < RuneSelf then (byte (s ! nat (n - 1)), 1)
      else (case DecodeRuneInString (drop (nat start) s) of
              (r, wid) \<Rightarrow> if start + int wid \<noteq> n then (RuneError, 1) else (r, wid)))"
    unfolding DecodeLastRuneInString_def Let_def n_def lim_def start0_def start_def
    by (rule refl)
  have "start + int wid = n \<Longrightarrow> 1 \<le> wid" using st by simp
  then show ?thesis
    using n d by (simp add: eq)
qed

text \<open>
  \<open>strings.lastIndexFunc\<close>: the loop
  \<^verbatim>\<open>for i := len(s); i > 0; { r, size := utf8.DecodeLastRuneInString(s[0:i]); i -= size; ... }\<close>
  with the prefix \<open>s[0:i]\<close> as the argument; the result is the index of the last rune
  for which \<open>f\<close> gives \<open>truth\<close>, or \<open>-1\<close>.
\<close>

function lastIndexFunc :: "string \<Rightarrow> (rune \<Rightarrow> bool) \<Rightarrow> bool \<Rightarrow> int" where
  "lastIndexFunc s f truth =
     (if 0 < length s then
        (case DecodeLastRuneInString s of
           (r, wid) \<Rightarrow>
             if f r = truth then int (length s) - int wid
             else lastIndexFunc (take (length s - wid) s) f truth)
      else - 1)"
  by pat_completeness auto
termination
proof (relation "measure (\<lambda>(s, f, truth). length s)", goal_cases)
  case 1
  show ?case by simp
next
  case (2 s f truth r wid)
  have "1 \<le> snd (DecodeLastRuneInString s)" using 2 DecodeLast_wid by simp
  then have "1 \<le> wid" using 2 by (metis snd_conv)
  then show ?case using 2 by simp
qed

declare lastIndexFunc.simps [simp del]

text \<open>\<open>strings.TrimRightFunc\<close>, \<open>strings.TrimFunc\<close>.\<close>

definition TrimRightFunc :: "string \<Rightarrow> (rune \<Rightarrow> bool) \<Rightarrow> string" where
  "TrimRightFunc s f =
     (let i = lastIndexFunc s f False;
          i' = (if 0 \<le> i \<and> RuneSelf \<le> byte (s ! nat i)
                then i + int (snd (DecodeRuneInString (drop (nat i) s)))
                else i + 1)
      in take (nat i') s)"

definition TrimFunc :: "string \<Rightarrow> (rune \<Rightarrow> bool) \<Rightarrow> string" where
  "TrimFunc s f = TrimRightFunc (TrimLeftFunc s f) f"

text \<open>
  \<open>strings.TrimSpace\<close>. Its first loop advances \<open>start\<close> over ASCII white space and hands
  over to \<open>TrimFunc\<close> at the first byte that is not ASCII; its second loop (\<open>trimStop\<close>
  here, on \<open>s[start:]\<close>) moves \<open>stop\<close> back in the same way and hands over to
  \<open>TrimRightFunc\<close>.
\<close>

function trimStop :: "string \<Rightarrow> string" where
  "trimStop s =
     (if s = [] then []
      else if RuneSelf \<le> byte (last s) then TrimRightFunc s IsSpace
      else if asciiSpace (last s) then trimStop (butlast s)
      else s)"
  by pat_completeness auto
termination
  by (relation "measure length") auto

declare trimStop.simps [simp del]

fun TrimSpace :: "string \<Rightarrow> string" where
  "TrimSpace [] = []"
| "TrimSpace (c # cs) =
     (if RuneSelf \<le> byte c then TrimFunc (c # cs) IsSpace
      else if asciiSpace c then TrimSpace cs
      else trimStop (c # cs))"

section \<open>client.go: constants, errors, validators\<close>

definition MaxAssociativeMapKeyLength :: nat where
  "MaxAssociativeMapKeyLength = 128"

definition MaxAssociativeMapValueLength :: nat where
  "MaxAssociativeMapValueLength = 768"

definition MaxSubjectLength :: nat where
  "MaxSubjectLength = 255"

definition ReferenceIDLength :: nat where
  "ReferenceIDLength = 24"

definition maxBulkMessages :: nat where
  "maxBulkMessages = 500"

text \<open>
  Every error the SDK creates, one constructor for each message:
  \<^item> \<open>ErrSubject\<close>: "subject must be a non-empty string with a maximum length of 255 characters"
    (both checks of \<open>requireSubject\<close> give this message);
  \<^item> \<open>ErrToRequired\<close>: "field to is required and must have at least one recipient";
  \<^item> \<open>ErrBodyRequired\<close>: "either html or plain body is required";
  \<^item> \<open>ErrBulkBodyRequired\<close>: "you must provide either html, plain, or template_id";
  \<^item> \<open>ErrBulkBodyConflict\<close>: "template_id cannot be combined with html or plain";
  \<^item> \<open>ErrMessagesEmpty\<close>: "messages must be a non-empty array";
  \<^item> \<open>ErrMessagesTooMany\<close>: "messages cannot contain more than 500 items";
  \<^item> \<open>ErrMessageTo i\<close>: "messages[i].to must have at least one recipient";
  \<^item> \<open>ErrMessageReferenceID i e\<close>: "messages[i].reference_id: " wrapping \<open>e\<close>;
  \<^item> \<open>ErrMessageTemplateData i e\<close>: "messages[i].template_data: " wrapping \<open>e\<close>;
  \<^item> \<open>ErrReferenceIDWhitespace\<close>: "reference_id must not contain whitespace";
  \<^item> \<open>ErrReferenceIDFormat\<close>: "reference_id must be a 24-character hexadecimal string";
  \<^item> \<open>ErrAssocKeyEmpty l\<close>: "l keys must be non-empty strings";
  \<^item> \<open>ErrAssocKeyLength l\<close>: "l key must not exceed 128 characters";
  \<^item> \<open>ErrAssocValueType l\<close>: "l must be an associative map with string keys and values
    (string/number/bool)";
  \<^item> \<open>ErrAssocValueLength l\<close>: "l value must not exceed 768 characters";
  \<^item> \<open>ErrTemplateDataKey\<close>: "template_data keys must be strings and non-empty";
  \<^item> \<open>ErrAttachmentFileName\<close>: "attachment.file_name is required";
  \<^item> \<open>ErrAttachmentContent\<close>: "attachment.content_base64 must be a non-empty base64 string";
  \<^item> \<open>ErrAttachmentContentType\<close>: "attachment.content_type is required";
  \<^item> \<open>ErrFileNameRequired\<close>: "file_name is required";
  \<^item> \<open>ErrContentEmpty\<close>: "content must be a non-empty base64 string";
  \<^item> \<open>ErrInvalidBase64\<close>: "invalid base64 content provided";
  \<^item> \<open>ErrRequest m\<close>: an error of \<open>sendRequest\<close> (encoding, transport, decoding);
  \<^item> \<open>ErrAPI m\<close>: "the API returned an error: m".
  A Go \<open>error\<close> result is an \<open>error option\<close>, \<open>None\<close> for \<open>nil\<close>; a \<open>(T, error)\<close> result is
  \<open>error + T\<close>.
\<close>

datatype error =
    ErrSubject
  | ErrToRequired
  | ErrBodyRequired
  | ErrBulkBodyRequired
  | ErrBulkBodyConflict
  | ErrMessagesEmpty
  | ErrMessagesTooMany
  | ErrMessageTo nat
  | ErrMessageReferenceID nat error
  | ErrMessageTemplateData nat error
  | ErrReferenceIDWhitespace
  | ErrReferenceIDFormat
  | ErrAssocKeyEmpty string
  | ErrAssocKeyLength string
  | ErrAssocValueType string
  | ErrAssocValueLength string
  | ErrTemplateDataKey
  | ErrAttachmentFileName
  | ErrAttachmentContent
  | ErrAttachmentContentType
  | ErrFileNameRequired
  | ErrContentEmpty
  | ErrInvalidBase64
  | ErrRequest string
  | ErrAPI string

text \<open>
  \<open>refIDRe = regexp.MustCompile(`^[0-9a-fA-F]{24}$`)\<close>. In Go's syntax \<open>$\<close> without the
  \<open>m\<close> flag matches at the end of the text only, and the class contains ASCII
  characters only, so the expression matches the strings of exactly 24 bytes that are
  all in the class.
\<close>

definition hexClass :: "char \<Rightarrow> bool" where
  "hexClass c =
     ((0x30 \<le> byte c \<and> byte c \<le> 0x39) \<or> (0x61 \<le> byte c \<and> byte c \<le> 0x66)
      \<or> (0x41 \<le> byte c \<and> byte c \<le> 0x46))"

definition refIDRe_MatchString :: "string \<Rightarrow> bool" where
  "refIDRe_MatchString s = (length s = 24 \<and> list_all hexClass s)"

definition validateReferenceID :: "string \<Rightarrow> error option" where
  "validateReferenceID s =
     (if s \<noteq> TrimSpace s then Some ErrReferenceIDWhitespace
      else if \<not> refIDRe_MatchString s then Some ErrReferenceIDFormat
      else None)"

definition requireSubject :: "string \<Rightarrow> error option" where
  "requireSubject s =
     (if TrimSpace s = [] then Some ErrSubject
      else if MaxSubjectLength < runeLen s then Some ErrSubject
      else None)"

section \<open>client.go: reference ids\<close>

text \<open>
  \<open>hex.EncodeToString\<close>: two characters of \<open>hextable\<close> for every byte, \<open>hextable[v>>4]\<close> and
  \<open>hextable[v&0x0f]\<close>.
\<close>

definition hextable :: string where
  "hextable = ''0123456789abcdef''"

fun hex_EncodeToString :: "bytes \<Rightarrow> string" where
  "hex_EncodeToString [] = []"
| "hex_EncodeToString (v # vs) =
     hextable ! (byte v div 16) # hextable ! (byte v mod 16) # hex_EncodeToString vs"

text \<open>
  The randomness one call of \<open>GetReferenceID\<close> consumes. \<open>Secure f\<close>: \<open>crypto/rand.Read\<close>
  returned no error and has filled the buffer, byte \<open>i\<close> with \<open>f i\<close>. \<open>Fallback g\<close>: it
  returned an error, and the \<open>i\<close>-th call of \<open>mathrand.Intn(256)\<close> returns \<open>g i\<close>; the loop
  then overwrites every byte of the buffer with \<open>byte(g i)\<close>.
\<close>

datatype entropy = Secure "nat \<Rightarrow> char" | Fallback "nat \<Rightarrow> nat"

definition GetReferenceID :: "entropy \<Rightarrow> string" where
  "GetReferenceID e =
     (let byteLen = ReferenceIDLength div 2;
          b = (case e of
                 Secure f \<Rightarrow> map f [0..<byteLen]
               | Fallback g \<Rightarrow> map (\<lambda>i. char_of (g i)) [0..<byteLen])
      in hex_EncodeToString b)"

section \<open>Base64 (\<open>encoding/base64\<close>, \<open>StdEncoding\<close>)\<close>

text \<open>
  The standard alphabet of RFC 4648 with \<open>=\<close> padding, not strict. \<open>decodeMap\<close> is filled
  with \<open>0xFF\<close> and then set to \<open>i\<close> at the \<open>i\<close>-th character of the alphabet.
\<close>

definition encodeStd :: string where
  "encodeStd = ''ABCDEFGHIJKLMNOPQRSTUVWXYZabcdefghijklmnopqrstuvwxyz0123456789+/''"

definition decodeMap :: "char \<Rightarrow> nat" where
  "decodeMap c = (case map_of (zip encodeStd [0..<64]) c of None \<Rightarrow> 0xFF | Some i \<Rightarrow> i)"

text \<open>
  \<open>Encoding.Encode\<close>: three bytes give four characters; a rest of one or two bytes gives
  two or three characters and padding.
\<close>

fun base64_EncodeToString :: "bytes \<Rightarrow> string" where
  "base64_EncodeToString [] = []"
| "base64_EncodeToString [a] =
     (let val = byte a * 65536
      in [encodeStd ! (val div 262144 mod 64), encodeStd ! (val div 4096 mod 64),
          CHR ''='', CHR ''=''])"
| "base64_EncodeToString [a, b] =
     (let val = byte a * 65536 + byte b * 256
      in [encodeStd ! (val div 262144 mod 64), encodeStd ! (val div 4096 mod 64),
          encodeStd ! (val div 64 mod 64), CHR ''=''])"
| "base64_EncodeToString (a # b # c # src) =
     (let val = byte a * 65536 + byte b * 256 + byte c
      in encodeStd ! (val div 262144 mod 64) # encodeStd ! (val div 4096 mod 64)
         # encodeStd ! (val div 64 mod 64) # encodeStd ! (val mod 64)
         # base64_EncodeToString src)"

text \<open>
  The bytes of one quantum, from the \<open>dlen\<close> six-bit values read into \<open>dbuf\<close>:
  \<open>dlen - 1\<close> bytes of \<open>dbuf[0]<<18 | dbuf[1]<<12 | dbuf[2]<<6 | dbuf[3]\<close>. The encoding is not
  strict, so the bits left over are dropped without a check.
\<close>

definition quantumBytes :: "nat list \<Rightarrow> bytes" where
  "quantumBytes dbuf =
     (let d = dbuf @ replicate (4 - length dbuf) 0;
          val = d ! 0 * 262144 + d ! 1 * 4096 + d ! 2 * 64 + d ! 3
      in take (length dbuf - 1)
           [char_of (val div 65536), char_of (val div 256), char_of val])"

definition isNewline :: "char \<Rightarrow> bool" where
  "isNewline c = (c = CHR 0x0A \<or> c = CHR 0x0D)"

text \<open>
  \<open>Encoding.Decode\<close> with \<open>decodeQuantum\<close>, on the input still to be read; \<open>dbuf\<close> holds
  the values of the current quantum (\<open>j = length dbuf\<close>). Carriage returns and newlines
  are skipped. At the end of the input a quantum must not be under way. Padding may
  only follow two or three values, must be complete, and only newlines may follow it.
  A failure (\<open>CorruptInputError\<close>) is \<open>None\<close>.
\<close>

fun decodeFrom :: "nat list \<Rightarrow> string \<Rightarrow> bytes option" where
  "decodeFrom dbuf [] = (if dbuf = [] then Some [] else None)"
| "decodeFrom dbuf (c # src) =
     (if decodeMap c \<noteq> 0xFF then
        (if length dbuf = 3 then
           (case decodeFrom [] src of
              None \<Rightarrow> None
            | Some out \<Rightarrow> Some (quantumBytes (dbuf @ [decodeMap c]) @ out))
         else decodeFrom (dbuf @ [decodeMap c]) src)
      else if isNewline c then decodeFrom dbuf src
      else if c \<noteq> CHR ''='' then None
      else if length dbuf < 2 then None
      else if length dbuf = 2 then
        (case dropWhile isNewline src of
           [] \<Rightarrow> None
         | p # src' \<Rightarrow>
             if p \<noteq> CHR ''='' then None
             else if dropWhile isNewline src' \<noteq> [] then None
             else Some (quantumBytes dbuf))
      else if dropWhile isNewline src \<noteq> [] then None
      else Some (quantumBytes dbuf))"

definition base64_DecodeString :: "string \<Rightarrow> bytes option" where
  "base64_DecodeString s = decodeFrom [] s"

section \<open>attachment.go\<close>

record Attachment =
  FileName :: string
  ContentType :: string
  Content :: string
  Inline :: bool

text \<open>\<open>strings.IndexByte\<close>: the index of the first \<open>c\<close> in \<open>s\<close>, or \<open>-1\<close>.\<close>

definition IndexByte :: "string \<Rightarrow> char \<Rightarrow> int" where
  "IndexByte s c = (if c \<in> set s then int (length (takeWhile (\<lambda>x. x \<noteq> c) s)) else - 1)"

text \<open>
  \<open>detectMimeFromBuffer\<close>. The sniffing of \<open>http.DetectContentType\<close> is a parameter of the
  model (\<open>detect\<close>), here and in the constructors that call it.
\<close>

definition detectMimeFromBuffer :: "(bytes \<Rightarrow> string) \<Rightarrow> bytes \<Rightarrow> string" where
  "detectMimeFromBuffer detect buf =
     (let mt = detect buf in
      if mt = [] then []
      else if 0 < IndexByte mt (CHR '';'') then TrimSpace (take (nat (IndexByte mt (CHR '';''))) mt)
      else mt)"

definition NewAttachment :: "string \<Rightarrow> string \<Rightarrow> string \<Rightarrow> bool \<Rightarrow> error + Attachment" where
  "NewAttachment fileName contentB64 contentType inline =
     (if TrimSpace fileName = [] then Inl ErrFileNameRequired
      else if TrimSpace contentB64 = [] then Inl ErrContentEmpty
      else if base64_DecodeString contentB64 = None then Inl ErrInvalidBase64
      else
        (let ct = (if TrimSpace contentType = [] then ''application/octet-stream''
                   else contentType)
         in Inr \<lparr>FileName = fileName, ContentType = ct, Content = contentB64,
                  Inline = inline\<rparr>))"

definition AttachmentFromContent ::
  "(bytes \<Rightarrow> string) \<Rightarrow> string \<Rightarrow> bytes \<Rightarrow> string \<Rightarrow> bool \<Rightarrow> error + Attachment" where
  "AttachmentFromContent detect fileName content contentType inline =
     (if TrimSpace fileName = [] then Inl ErrFileNameRequired
      else
        (let ct = (if TrimSpace contentType = [] then
                     (if detectMimeFromBuffer detect content \<noteq> []
                      then detectMimeFromBuffer detect content
                      else ''application/octet-stream'')
                   else contentType);
             b64 = base64_EncodeToString content
         in Inr \<lparr>FileName = fileName, ContentType = ct, Content = b64, Inline = inline\<rparr>))"

definition AttachmentFromBase64Content ::
  "(bytes \<Rightarrow> string) \<Rightarrow> string \<Rightarrow> string \<Rightarrow> string \<Rightarrow> bool \<Rightarrow> error + Attachment" where
  "AttachmentFromBase64Content detect fileName contentB64 contentType inline =
     (case base64_DecodeString contentB64 of
        None \<Rightarrow> Inl ErrInvalidBase64
      | Some raw \<Rightarrow>
          (let ct = (if TrimSpace contentType = [] then
                       (if detectMimeFromBuffer detect raw \<noteq> []
                        then detectMimeFromBuffer detect raw
                        else ''application/octet-stream'')
                     else contentType)
           in NewAttachment fileName contentB64 ct inline))"

text \<open>
  A detector for the examples below: sniffing that recognises nothing, for which
  \<open>http.DetectContentType\<close> answers \<open>application/octet-stream\<close>.
\<close>

definition octetStream :: "bytes \<Rightarrow> string" where
  "octetStream buf = ''application/octet-stream''"

text \<open>\<open>(a *Attachment) validate\<close>, the check of the request builders.\<close>

definition validate :: "Attachment \<Rightarrow> error option" where
  "validate a =
     (if TrimSpace (FileName a) = [] then Some ErrAttachmentFileName
      else if TrimSpace (Content a) = [] then Some ErrAttachmentContent
      else if TrimSpace (ContentType a) = [] then Some ErrAttachmentContentType
      else None)"

section \<open>The address model\<close>

record EmailAddress =
  Address :: string
  DisplayName :: "string option"

text \<open>\<open>(e EmailAddress) ToJSON\<close>, a \<open>map[string]string\<close>, and \<open>emailAddressesToJSON\<close>.\<close>

definition ToJSON :: "EmailAddress \<Rightarrow> (string \<rightharpoonup> string)" where
  "ToJSON e =
     (case DisplayName e of
        None \<Rightarrow> [''address'' \<mapsto> Address e]
      | Some dn \<Rightarrow> [''address'' \<mapsto> Address e, ''display_name'' \<mapsto> dn])"

definition emailAddressesToJSON :: "EmailAddress list \<Rightarrow> (string \<rightharpoonup> string) list" where
  "emailAddressesToJSON addrs = map ToJSON addrs"

section \<open>client.go: request data\<close>

text \<open>
  A value of type \<open>any\<close> in tags, headers or template data, as far as the validators look
  at it: a string, a boolean, a number of one of the kinds the type switch of
  \<open>isAcceptableAssocValue\<close> lists, given by its rendering with \<open>fmt.Sprintf("%v", t)\<close>, or a
  value of any other type, likewise given by its rendering.

  A map of these (\<open>AssocMap\<close>, \<open>map[string]any\<close>) is the list of its entries in the order
  in which \<open>range\<close> visits them; \<open>None\<close> is the \<open>nil\<close> map. A pointer field is an
  \<open>option\<close>, \<open>None\<close> for \<open>nil\<close>; a slice is a list, \<open>nil\<close> and empty alike, as the code
  only takes their \<open>len\<close>. A \<open>time.Time\<close> is a number.
\<close>

datatype AssocValue = VString string | VBool bool | VNumber string | VOther string

type_synonym AssocMap = "(string \<times> AssocValue) list"

type_synonym Time = int

record BasePayload =
  Subject :: string
  From :: EmailAddress
  To :: "EmailAddress list"
  Cc :: "EmailAddress list"
  Bcc :: "EmailAddress list"
  ReplyTo :: "EmailAddress list"
  Tracking :: "bool option"
  Tags :: "AssocMap option"
  Headers :: "AssocMap option"
  Attachments :: "Attachment list"
  ScheduledAt :: "Time option"
  ReferenceID :: "string option"

record BasicEmailData =
  From :: EmailAddress
  To :: "EmailAddress list"
  Cc :: "EmailAddress list"
  Bcc :: "EmailAddress list"
  ReplyTo :: "EmailAddress list"
  Subject :: string
  HTML :: "string option"
  Plain :: "string option"
  Tracking :: "bool option"
  Tags :: "AssocMap option"
  Headers :: "AssocMap option"
  Attachments :: "Attachment list"
  ScheduledAt :: "Time option"
  ReferenceID :: "string option"

record BulkMessage =
  From :: EmailAddress
  To :: "EmailAddress list"
  Cc :: "EmailAddress list"
  Bcc :: "EmailAddress list"
  ReplyTo :: "EmailAddress list"
  ReferenceID :: "string option"
  TemplateData :: "AssocMap option"

record BulkEmailData =
  Subject :: string
  HTML :: "string option"
  Plain :: "string option"
  TemplateID :: "int option"
  Tracking :: "bool option"
  Tags :: "AssocMap option"
  Headers :: "AssocMap option"
  Attachments :: "Attachment list"
  Messages :: "BulkMessage list"

text \<open>
  The values stored in an outgoing \<open>map[string]any\<close>. \<open>AStringPtr\<close> and \<open>AIntPtr\<close> are
  values of type \<open>*string\<close> and \<open>*int\<close>: with \<open>None\<close> the key is present and holds a \<open>nil\<close>
  pointer, which \<open>encoding/json\<close> writes as \<open>null\<close>.
\<close>

datatype any =
    AString string
  | AStringPtr "string option"
  | AIntPtr "int option"
  | ABool bool
  | ATime Time
  | AStringMap "string \<rightharpoonup> string"
  | AStringMaps "(string \<rightharpoonup> string) list"
  | AAssocMap AssocMap
  | AAttachments "Attachment list"
  | AMaps "(string \<rightharpoonup> any) list"

text \<open>The \<open>out\<close> structures that \<open>sendRequest\<close> decodes the response envelope into.\<close>

record Envelope =
  Success :: bool
  Message :: string
  DataReferenceID :: string
  DataReferenceIDs :: "string list"

section \<open>client.go: validators of maps\<close>

definition isAcceptableAssocValue :: "AssocValue \<Rightarrow> bool" where
  "isAcceptableAssocValue v =
     (case v of VString t \<Rightarrow> True | VBool t \<Rightarrow> True | VNumber t \<Rightarrow> True | VOther t \<Rightarrow> False)"

definition valLen :: "AssocValue \<Rightarrow> nat" where
  "valLen v =
     (case v of
        VString t \<Rightarrow> runeLen t
      | VBool t \<Rightarrow> (if t then 4 else 5)
      | VNumber t \<Rightarrow> length t
      | VOther t \<Rightarrow> length t)"

fun validateAssociativeMap :: "AssocMap \<Rightarrow> string \<Rightarrow> error option" where
  "validateAssociativeMap [] label = None"
| "validateAssociativeMap ((k, v) # m) label =
     (if TrimSpace k = [] then Some (ErrAssocKeyEmpty label)
      else if MaxAssociativeMapKeyLength < runeLen k then Some (ErrAssocKeyLength label)
      else if \<not> isAcceptableAssocValue v then Some (ErrAssocValueType label)
      else if MaxAssociativeMapValueLength < valLen v then Some (ErrAssocValueLength label)
      else validateAssociativeMap m label)"

fun validateTemplateData :: "AssocMap \<Rightarrow> error option" where
  "validateTemplateData [] = None"
| "validateTemplateData ((k, v) # m) =
     (if TrimSpace k = [] then Some ErrTemplateDataKey else validateTemplateData m)"

section \<open>client.go: request builders\<close>

text \<open>
  The loop over the attachments in \<open>buildBasePayload\<close> and \<open>SendBulkEmails\<close>: every
  attachment is validated and appended to \<open>arr\<close>; the first failure is returned.
\<close>

fun validateAttachments :: "Attachment list \<Rightarrow> Attachment list \<Rightarrow> error + Attachment list" where
  "validateAttachments arr [] = Inr arr"
| "validateAttachments arr (att # atts) =
     (case validate att of
        Some err \<Rightarrow> Inl err
      | None \<Rightarrow> validateAttachments (arr @ [att]) atts)"

text \<open>
  \<open>(c *Client) buildBasePayload\<close>. The client is not read; \<open>rnd\<close> is the randomness
  of the call of \<open>GetReferenceID\<close>, made when the payload carries no reference id.
\<close>

definition buildBasePayload :: "entropy \<Rightarrow> BasePayload \<Rightarrow> error + (string \<rightharpoonup> any)" where
  "buildBasePayload rnd payload =
     (case requireSubject (BasePayload.Subject payload) of
        Some err \<Rightarrow> Inl err
      | None \<Rightarrow>
     if length (BasePayload.To payload) = 0 then Inl ErrToRequired
     else
     let result = [''subject'' \<mapsto> AString (BasePayload.Subject payload)];
         result = result(''from'' \<mapsto> AStringMap (ToJSON (BasePayload.From payload)));
         result = result(''to'' \<mapsto> AStringMaps (emailAddressesToJSON (BasePayload.To payload)));
         result = (if 0 < length (BasePayload.Cc payload)
                   then result(''cc'' \<mapsto> AStringMaps (emailAddressesToJSON (BasePayload.Cc payload)))
                   else result);
         result = (if 0 < length (BasePayload.Bcc payload)
                   then result(''bcc'' \<mapsto> AStringMaps (emailAddressesToJSON (BasePayload.Bcc payload)))
                   else result);
         result = (if 0 < length (BasePayload.ReplyTo payload)
                   then result(''reply_to'' \<mapsto>
                          AStringMaps (emailAddressesToJSON (BasePayload.ReplyTo payload)))
                   else result);
         result = (case BasePayload.Tracking payload of
                     Some t \<Rightarrow> result(''tracking'' \<mapsto> ABool t)
                   | None \<Rightarrow> result)
     in
     case (case BasePayload.Tags payload of
             Some tags \<Rightarrow> validateAssociativeMap tags ''tags''
           | None \<Rightarrow> None) of
       Some err \<Rightarrow> Inl err
     | None \<Rightarrow>
     let result = (case BasePayload.Tags payload of
                     Some tags \<Rightarrow> result(''tags'' \<mapsto> AAssocMap tags)
                   | None \<Rightarrow> result)
     in
     case (case BasePayload.Headers payload of
             Some headers \<Rightarrow> validateAssociativeMap headers ''headers''
           | None \<Rightarrow> None) of
       Some err \<Rightarrow> Inl err
     | None \<Rightarrow>
     let result = (case BasePayload.Headers payload of
                     Some headers \<Rightarrow> result(''headers'' \<mapsto> AAssocMap headers)
                   | None \<Rightarrow> result)
     in
     case (if 0 < length (BasePayload.Attachments payload)
           then validateAttachments [] (BasePayload.Attachments payload)
           else Inr []) of
       Inl err \<Rightarrow> Inl err
     | Inr arr \<Rightarrow>
     let result = (if 0 < length (BasePayload.Attachments payload)
                   then result(''attachments'' \<mapsto> AAttachments arr)
                   else result);
         result = (case BasePayload.ScheduledAt payload of
                     Some t \<Rightarrow> result(''scheduled_at'' \<mapsto> ATime t)
                   | None \<Rightarrow> result)
     in
     case BasePayload.ReferenceID payload of
       Some r \<Rightarrow>
         (case validateReferenceID r of
            Some err \<Rightarrow> Inl err
          | None \<Rightarrow> Inr (result(''reference_id'' \<mapsto> AString r)))
     | None \<Rightarrow> Inr (result(''reference_id'' \<mapsto> AString (GetReferenceID rnd))))"

text \<open>
  \<open>(c *Client) SendBasicEmail\<close>, in two parts. \<open>basicEmailPayload\<close> is the function up to
  the call of \<open>sendRequest\<close> (lines 158 to 184): it returns the error the function
  returns before that call, or the payload the call is made with.
\<close>

definition basicEmailPayload :: "entropy \<Rightarrow> BasicEmailData \<Rightarrow> error + (string \<rightharpoonup> any)" where
  "basicEmailPayload rnd data =
     (let payload = \<lparr>BasePayload.Subject = BasicEmailData.Subject data,
                      From = BasicEmailData.From data,
                      To = BasicEmailData.To data,
                      Cc = BasicEmailData.Cc data,
                      Bcc = BasicEmailData.Bcc data,
                      ReplyTo = BasicEmailData.ReplyTo data,
                      Tracking = BasicEmailData.Tracking data,
                      Tags = BasicEmailData.Tags data,
                      Headers = BasicEmailData.Headers data,
                      Attachments = BasicEmailData.Attachments data,
                      ScheduledAt = BasicEmailData.ScheduledAt data,
                      ReferenceID = BasicEmailData.ReferenceID data\<rparr>
      in case buildBasePayload rnd payload of
           Inl err \<Rightarrow> Inl err
         | Inr basePayload \<Rightarrow>
             if BasicEmailData.HTML data = None \<and> BasicEmailData.Plain data = None
             then Inl ErrBodyRequired
             else Inr (basePayload(''html'' \<mapsto> AStringPtr (BasicEmailData.HTML data),
                                   ''plain'' \<mapsto> AStringPtr (BasicEmailData.Plain data))))"

text \<open>
  The exchange with the API is a parameter: \<open>sendRequest method endpoint body\<close> is the
  error of \<open>(c *Client) sendRequest\<close> or the envelope it decodes into \<open>out\<close>.
\<close>

type_synonym transport = "string \<Rightarrow> string \<Rightarrow> (string \<rightharpoonup> any) \<Rightarrow> error + Envelope"

definition SendBasicEmail :: "transport \<Rightarrow> entropy \<Rightarrow> BasicEmailData \<Rightarrow> error + string" where
  "SendBasicEmail sendRequest rnd data =
     (case basicEmailPayload rnd data of
        Inl err \<Rightarrow> Inl err
      | Inr basePayload \<Rightarrow>
          (case sendRequest ''POST'' ''emails'' basePayload of
             Inl err \<Rightarrow> Inl err
           | Inr out \<Rightarrow>
               if Success out then Inr (DataReferenceID out)
               else Inl (ErrAPI (if Message out = [] then ''Unknown'' else Message out))))"

text \<open>
  \<open>(c *Client) normalizeBulkMessages\<close>, the loop from index \<open>i\<close> on. \<open>rnd\<close> is the
  randomness of the calls of \<open>GetReferenceID\<close> still to come, \<open>rnd 0\<close> for the next one.
\<close>

fun normalizeBulkMessages ::
  "(nat \<Rightarrow> entropy) \<Rightarrow> nat \<Rightarrow> BulkMessage list \<Rightarrow> error + (string \<rightharpoonup> any) list" where
  "normalizeBulkMessages rnd i [] = Inr []"
| "normalizeBulkMessages rnd i (m # ms) =
     (if length (BulkMessage.To m) = 0 then Inl (ErrMessageTo i)
      else
      let item = [''from'' \<mapsto> AStringMap (ToJSON (BulkMessage.From m)),
                  ''to'' \<mapsto> AStringMaps (emailAddressesToJSON (BulkMessage.To m))];
          item = (if 0 < length (BulkMessage.Cc m)
                  then item(''cc'' \<mapsto> AStringMaps (emailAddressesToJSON (BulkMessage.Cc m)))
                  else item);
          item = (if 0 < length (BulkMessage.Bcc m)
                  then item(''bcc'' \<mapsto> AStringMaps (emailAddressesToJSON (BulkMessage.Bcc m)))
                  else item);
          item = (if 0 < length (BulkMessage.ReplyTo m)
                  then item(''reply_to'' \<mapsto>
                         AStringMaps (emailAddressesToJSON (BulkMessage.ReplyTo m)))
                  else item)
      in
      case (case BulkMessage.ReferenceID m of
              Some r \<Rightarrow> validateReferenceID r
            | None \<Rightarrow> None) of
        Some err \<Rightarrow> Inl (ErrMessageReferenceID i err)
      | None \<Rightarrow>
      let item = (case BulkMessage.ReferenceID m of
                    Some r \<Rightarrow> item(''reference_id'' \<mapsto> AString r)
                  | None \<Rightarrow> item(''reference_id'' \<mapsto> AString (GetReferenceID (rnd 0))));
          rnd = (case BulkMessage.ReferenceID m of
                   Some r \<Rightarrow> rnd
                 | None \<Rightarrow> (\<lambda>k. rnd (Suc k)))
      in
      case (case TemplateData m of
              Some td \<Rightarrow> validateTemplateData td
            | None \<Rightarrow> None) of
        Some err \<Rightarrow> Inl (ErrMessageTemplateData i err)
      | None \<Rightarrow>
      let item = (case TemplateData m of
                    Some td \<Rightarrow> item(''template_data'' \<mapsto> AAssocMap td)
                  | None \<Rightarrow> item)
      in
      case normalizeBulkMessages rnd (i + 1) ms of
        Inl err \<Rightarrow> Inl err
      | Inr out \<Rightarrow> Inr (item # out))"

text \<open>
  \<open>(c *Client) SendBulkEmails\<close>, in two parts as above: \<open>bulkEmailPayload\<close> is the
  function up to the call of \<open>sendRequest\<close> (lines 271 to 359).
\<close>

definition bulkEmailPayload :: "(nat \<Rightarrow> entropy) \<Rightarrow> BulkEmailData \<Rightarrow> error + (string \<rightharpoonup> any)" where
  "bulkEmailPayload rnd data =
     (case requireSubject (BulkEmailData.Subject data) of
        Some err \<Rightarrow> Inl err
      | None \<Rightarrow>
     let hasHTML = (BulkEmailData.HTML data \<noteq> None);
         hasPlain = (BulkEmailData.Plain data \<noteq> None);
         hasTemplateID = (TemplateID data \<noteq> None)
     in
     if (\<not> hasHTML \<and> \<not> hasPlain) \<and> \<not> hasTemplateID then Inl ErrBulkBodyRequired
     else if TemplateID data \<noteq> None \<and> (hasHTML \<or> hasPlain) then Inl ErrBulkBodyConflict
     else if length (Messages data) = 0 then Inl ErrMessagesEmpty
     else if maxBulkMessages < length (Messages data) then Inl ErrMessagesTooMany
     else
     let payload = [''subject'' \<mapsto> AString (BulkEmailData.Subject data)];
         payload = (if hasHTML then payload(''html'' \<mapsto> AStringPtr (BulkEmailData.HTML data))
                    else payload);
         payload = (if hasPlain then payload(''plain'' \<mapsto> AStringPtr (BulkEmailData.Plain data))
                    else payload);
         payload = (if hasTemplateID then payload(''template_id'' \<mapsto> AIntPtr (TemplateID data))
                    else payload);
         payload = (case BulkEmailData.Tracking data of
                      Some t \<Rightarrow> payload(''tracking'' \<mapsto> ABool t)
                    | None \<Rightarrow> payload)
     in
     case (case BulkEmailData.Tags data of
             Some tags \<Rightarrow> validateAssociativeMap tags ''tags''
           | None \<Rightarrow> None) of
       Some err \<Rightarrow> Inl err
     | None \<Rightarrow>
     let payload = (case BulkEmailData.Tags data of
                      Some tags \<Rightarrow> payload(''tags'' \<mapsto> AAssocMap tags)
                    | None \<Rightarrow> payload)
     in
     case (case BulkEmailData.Headers data of
             Some headers \<Rightarrow> validateAssociativeMap headers ''headers''
           | None \<Rightarrow> None) of
       Some err \<Rightarrow> Inl err
     | None \<Rightarrow>
     let payload = (case BulkEmailData.Headers data of
                      Some headers \<Rightarrow> payload(''headers'' \<mapsto> AAssocMap headers)
                    | None \<Rightarrow> payload)
     in
     case (if 0 < length (BulkEmailData.Attachments data)
           then validateAttachments [] (BulkEmailData.Attachments data)
           else Inr []) of
       Inl err \<Rightarrow> Inl err
     | Inr arr \<Rightarrow>
     let payload = (if 0 < length (BulkEmailData.Attachments data)
                    then payload(''attachments'' \<mapsto> AAttachments arr)
                    else payload)
     in
     case normalizeBulkMessages rnd 0 (Messages data) of
       Inl err \<Rightarrow> Inl err
     | Inr msgs \<Rightarrow> Inr (payload(''messages'' \<mapsto> AMaps msgs)))"

definition SendBulkEmails ::
  "transport \<Rightarrow> (nat \<Rightarrow> entropy) \<Rightarrow> BulkEmailData \<Rightarrow> error + string list" where
  "SendBulkEmails sendRequest rnd data =
     (case bulkEmailPayload rnd data of
        Inl err \<Rightarrow> Inl err
      | Inr payload \<Rightarrow>
          (case sendRequest ''POST'' ''emails/bulk'' payload of
             Inl err \<Rightarrow> Inl err
           | Inr out \<Rightarrow>
               if Success out then Inr (DataReferenceIDs out)
               else Inl (ErrAPI (if Message out = [] then ''Unknown'' else Message out))))"

section \<open>The checks of a bulk request, and sample requests\<close>

text \<open>
  The errors of the two checks on the body mode and of the two checks on the number of
  messages in \<open>SendBulkEmails\<close>.
\<close>

fun bulkCheckError :: "error \<Rightarrow> bool" where
  "bulkCheckError ErrBulkBodyRequired = True"
| "bulkCheckError ErrBulkBodyConflict = True"
| "bulkCheckError ErrMessagesEmpty = True"
| "bulkCheckError ErrMessagesTooMany = True"
| "bulkCheckError e = False"

text \<open>
  Exactly one body mode: html or plain or both without a template id, or a template id
  alone.
\<close>

definition oneBodyMode :: "BulkEmailData \<Rightarrow> bool" where
  "oneBodyMode data =
     (((BulkEmailData.HTML data \<noteq> None \<or> BulkEmailData.Plain data \<noteq> None) \<and> TemplateID data = None)
      \<or> (BulkEmailData.HTML data = None \<and> BulkEmailData.Plain data = None \<and> TemplateID data \<noteq> None))"

text \<open>
  The requests of the examples: the basic email of the end-to-end scenario, a bulk
  message with one recipient, a bulk request with a given body mode and list of messages,
  and a source of randomness.
\<close>

definition sampleData :: BasicEmailData where
  "sampleData =
     \<lparr>BasicEmailData.From = \<lparr>Address = ''me@b.com'', DisplayName = None\<rparr>,
      To = [\<lparr>Address = ''a@b.com'', DisplayName = None\<rparr>],
      Cc = [], Bcc = [], ReplyTo = [],
      Subject = ''Hi'',
      HTML = Some ''<p>x</p>'', Plain = None,
      Tracking = None, Tags = None, Headers = None, Attachments = [],
      ScheduledAt = None, ReferenceID = None\<rparr>"

definition sampleMessage :: BulkMessage where
  "sampleMessage =
     \<lparr>BulkMessage.From = \<lparr>Address = ''me@b.com'', DisplayName = None\<rparr>,
      To = [\<lparr>Address = ''a@b.com'', DisplayName = None\<rparr>],
      Cc = [], Bcc = [], ReplyTo = [], ReferenceID = None, TemplateData = None\<rparr>"

definition sampleBulk ::
  "string option \<Rightarrow> string option \<Rightarrow> int option \<Rightarrow> BulkMessage list \<Rightarrow> BulkEmailData" where
  "sampleBulk html plain templateID msgs =
     \<lparr>BulkEmailData.Subject = ''Hi'', HTML = html, Plain = plain, TemplateID = templateID,
      Tracking = None, Tags = None, Headers = None, Attachments = [], Messages = msgs\<rparr>"

definition sampleEntropy :: "nat \<Rightarrow> entropy" where
  "sampleEntropy k = Secure (\<lambda>i. CHR 0x2A)"

section \<open>Properties of reference ids\<close>

lemma hexClass_ascii: "hexClass c \<Longrightarrow> byte c < RuneSelf \<and> \<not> asciiSpace c"
  by (auto simp: hexClass_def RuneSelf_def asciiSpace_def)

lemma trimStop_keep:
  assumes "s \<noteq> []" and "byte (last s) < RuneSelf" and "\<not> asciiSpace (last s)"
  shows "trimStop s = s"
  using assms by (subst trimStop.simps) simp

text \<open>
  A string whose first and last bytes are ASCII and not white space is left as it is.
\<close>

lemma TrimSpace_keep:
  assumes "s \<noteq> []" and "byte (hd s) < RuneSelf" and "\<not> asciiSpace (hd s)"
    and "byte (last s) < RuneSelf" and "\<not> asciiSpace (last s)"
  shows "TrimSpace s = s"
proof (cases s)
  case Nil
  then show ?thesis using assms by simp
next
  case (Cons c cs)
  then have "TrimSpace s = trimStop s" using assms by simp
  then show ?thesis using assms trimStop_keep by simp
qed

lemma refIDRe_TrimSpace:
  assumes "refIDRe_MatchString s"
  shows "TrimSpace s = s"
proof -
  from assms have len: "length s = 24" and all: "list_all hexClass s"
    by (simp_all add: refIDRe_MatchString_def)
  from len have ne: "s \<noteq> []" by auto
  then have "hd s \<in> set s" and "last s \<in> set s" by simp_all
  with all have "hexClass (hd s)" and "hexClass (last s)"
    by (simp_all add: list_all_iff)
  then show ?thesis using ne hexClass_ascii TrimSpace_keep by blast
qed

lemma hextable_hex: "i < 16 \<Longrightarrow> hexClass (hextable ! i)"
proof -
  assume "i < 16"
  then have "hextable ! i \<in> set hextable" by (intro nth_mem) (simp add: hextable_def)
  moreover have "list_all hexClass hextable"
    by (simp add: hextable_def hexClass_def byte_def)
  ultimately show ?thesis by (simp add: list_all_iff)
qed

lemma byte_lt: "byte c < 256"
  by (simp add: byte_def)

lemma hex_EncodeToString_length: "length (hex_EncodeToString vs) = 2 * length vs"
  by (induction vs) simp_all

lemma hex_EncodeToString_class: "list_all hexClass (hex_EncodeToString vs)"
proof (induction vs)
  case Nil
  show ?case by simp
next
  case (Cons v vs)
  have "byte v div 16 < 16" using byte_lt[of v] by simp
  moreover have "byte v mod 16 < 16" by simp
  ultimately show ?case using Cons hextable_hex by simp
qed

lemma GetReferenceID_match: "refIDRe_MatchString (GetReferenceID e)"
  by (cases e)
     (simp_all add: GetReferenceID_def refIDRe_MatchString_def ReferenceIDLength_def
        hex_EncodeToString_length hex_EncodeToString_class)

text \<open>
  Claim C5. Every string \<open>GetReferenceID\<close> returns matches \<open>^[0-9a-fA-F]{24}$\<close>: it has
  exactly 24 characters, all hexadecimal digits. This holds on the branch where
  \<open>crypto/rand\<close> succeeds and on the fallback branch, whatever the twelve bytes are; the
  result also passes \<open>validateReferenceID\<close>.
\<close>

theorem GetReferenceID_format:
  "refIDRe_MatchString (GetReferenceID (Secure f))
   \<and> refIDRe_MatchString (GetReferenceID (Fallback g))
   \<and> length (GetReferenceID e) = 24
   \<and> list_all hexClass (GetReferenceID e)
   \<and> validateReferenceID (GetReferenceID e) = None"
proof -
  have m: "refIDRe_MatchString (GetReferenceID x)" for x
    by (rule GetReferenceID_match)
  have "validateReferenceID (GetReferenceID e) = None"
    using m[of e] refIDRe_TrimSpace by (simp add: validateReferenceID_def)
  then show ?thesis
    using m[of e] m[of "Secure f"] m[of "Fallback g"] by (simp add: refIDRe_MatchString_def)
qed

text \<open>
  Claim C9. \<open>validateReferenceID\<close> fails exactly when the string differs from its trimmed
  form (it has leading or trailing white space) or is not made of exactly 24 hexadecimal
  characters; it succeeds exactly on the strings of 24 hexadecimal characters. It rejects
  \<open>"abc"\<close> and \<open>" 0123456789abcdef01234567"\<close> and accepts \<open>"0123456789abcdef01234567"\<close>.
\<close>

theorem validateReferenceID_spec:
  "(validateReferenceID s \<noteq> None) =
     (s \<noteq> TrimSpace s \<or> \<not> (length s = 24 \<and> list_all hexClass s))
   \<and> (validateReferenceID s = None) = (length s = 24 \<and> list_all hexClass s)
   \<and> validateReferenceID ''abc'' = Some ErrReferenceIDFormat
   \<and> validateReferenceID '' 0123456789abcdef01234567'' = Some ErrReferenceIDWhitespace
   \<and> validateReferenceID ''0123456789abcdef01234567'' = None"
proof -
  have a: "(validateReferenceID s \<noteq> None) =
     (s \<noteq> TrimSpace s \<or> \<not> (length s = 24 \<and> list_all hexClass s))"
    by (simp add: validateReferenceID_def refIDRe_MatchString_def)
  have b: "(validateReferenceID s = None) = (length s = 24 \<and> list_all hexClass s)"
    using refIDRe_TrimSpace[of s]
    by (auto simp: validateReferenceID_def refIDRe_MatchString_def)
  have c: "validateReferenceID ''abc'' = Some ErrReferenceIDFormat"
    by (simp add: validateReferenceID_def refIDRe_MatchString_def trimStop.simps byte_def
        RuneSelf_def asciiSpace_def)
  have d: "validateReferenceID '' 0123456789abcdef01234567'' = Some ErrReferenceIDWhitespace"
    by (simp add: validateReferenceID_def trimStop.simps byte_def RuneSelf_def asciiSpace_def)
  have e: "validateReferenceID ''0123456789abcdef01234567'' = None"
    by (simp add: validateReferenceID_def refIDRe_MatchString_def trimStop.simps byte_def
        RuneSelf_def asciiSpace_def hexClass_def)
  from a b c d e show ?thesis by blast
qed

theorem validateReferenceID_spec_witness:
  "validateReferenceID ''0123456789ABCDEF0123456 '' \<noteq> None
   \<and> validateReferenceID ''0123456789ABCDEFabcdef01'' = None"
proof -
  have "''0123456789ABCDEF0123456 '' \<noteq> TrimSpace ''0123456789ABCDEF0123456 ''"
    by (simp add: trimStop.simps byte_def RuneSelf_def asciiSpace_def)
  moreover have "length ''0123456789ABCDEFabcdef01'' = 24
      \<and> list_all hexClass ''0123456789ABCDEFabcdef01''"
    by (simp add: hexClass_def byte_def)
  ultimately show ?thesis
    using validateReferenceID_spec[of "''0123456789ABCDEF0123456 ''"]
      validateReferenceID_spec[of "''0123456789ABCDEFabcdef01''"]
    by blast
qed

section \<open>Properties of the subject check\<close>

lemma runes_ascii: "byte c < RuneSelf \<Longrightarrow> runes (c # s) = byte c # runes s"
  by (simp add: DecodeRuneInString_def)

text \<open>The two bytes \<open>C3 A9\<close> are the one rune \<open>U+00E9\<close>.\<close>

lemma runes_two: "runes (CHR 0xC3 # CHR 0xA9 # s) = 0xE9 # runes s"
  by (simp add: DecodeRuneInString_def byte_def RuneSelf_def lead_def)

lemma runes_two_replicate:
  "runes (concat (replicate n [CHR 0xC3, CHR 0xA9]) @ s) = replicate n 0xE9 @ runes s"
  by (induction n) (simp_all add: runes_two del: runes.simps)

text \<open>Decoding the encoding of a valid code point gives the code point and its width.\<close>

lemma byte_char_of: "n < 256 \<Longrightarrow> byte (char_of n) = n"
  by (simp add: byte_def)

lemma Decode_one:
  assumes "r \<le> 0x7F"
  shows "DecodeRuneInString (EncodeRune r @ s) = (r, 1)"
  using assms by (simp add: EncodeRune_def DecodeRuneInString_def byte_char_of RuneSelf_def)



lemma Decode2:
  assumes "RuneSelf \<le> byte c0" "lead (byte c0) = Some (2, lo, hi)"
    and "lo \<le> byte c1" "byte c1 \<le> hi"
  shows "DecodeRuneInString (c0 # c1 # s) = (byte c0 mod 32 * 64 + byte c1 mod 64, 2)"
  using assms by (simp add: DecodeRuneInString_def)

lemma Decode3:
  assumes "RuneSelf \<le> byte c0" "lead (byte c0) = Some (3, lo, hi)"
    and "lo \<le> byte c1" "byte c1 \<le> hi" "cont (byte c2)"
  shows "DecodeRuneInString (c0 # c1 # c2 # s) =
         (byte c0 mod 16 * 4096 + byte c1 mod 64 * 64 + byte c2 mod 64, 3)"
  using assms by (simp add: DecodeRuneInString_def)

lemma Decode4:
  assumes "RuneSelf \<le> byte c0" "lead (byte c0) = Some (4, lo, hi)"
    and "lo \<le> byte c1" "byte c1 \<le> hi" "cont (byte c2)" "cont (byte c3)"
  shows "DecodeRuneInString (c0 # c1 # c2 # c3 # s) =
         (byte c0 mod 8 * 262144 + byte c1 mod 64 * 4096 + byte c2 mod 64 * 64
          + byte c3 mod 64, 4)"
  using assms by (simp add: DecodeRuneInString_def)


lemma add_mod_small:
  fixes x :: nat
  assumes "k mod n = 0" "x < n"
  shows "(k + x) mod n = x"
proof -
  have "(k + x) mod n = (k mod n + x mod n) mod n" by (rule mod_add_eq[symmetric])
  then show ?thesis using assms by simp
qed

lemma Decode_two:
  assumes "0x7F < r" "r \<le> 0x7FF"
  shows "DecodeRuneInString (EncodeRune r @ s) = (r, 2)"
proof -
  define q where "q = r div 64"
  define m where "m = r mod 64"
  have r: "q * 64 + m = r" by (simp add: q_def m_def)
  have q: "2 \<le> q" "q < 32" using assms by (simp_all add: q_def)
  have m: "m < 64" by (simp add: m_def)
  have b0: "byte (char_of (0xC0 + q)) = 0xC0 + q" using q by (simp add: byte_char_of)
  have b1: "byte (char_of (0x80 + m)) = 0x80 + m" using m by (simp add: byte_char_of)
  have l: "lead (0xC0 + q) = Some (2, 0x80, 0xBF)" using q by (simp add: lead_def)
  have e: "EncodeRune r = [char_of (0xC0 + q), char_of (0x80 + m)]"
    using assms by (simp add: EncodeRune_def q_def m_def)
  have x: "(0xC0 + q) mod 32 = q" using q by (intro add_mod_small) simp_all
  have y: "(0x80 + m) mod 64 = m" using m by (intro add_mod_small) simp_all
  have "DecodeRuneInString (char_of (0xC0 + q) # char_of (0x80 + m) # s) =
        (byte (char_of (0xC0 + q)) mod 32 * 64 + byte (char_of (0x80 + m)) mod 64, 2)"
  proof (rule Decode2)
    show "RuneSelf \<le> byte (char_of (0xC0 + q))" unfolding b0 by (simp add: RuneSelf_def)
    show "lead (byte (char_of (0xC0 + q))) = Some (2, 0x80, 0xBF)" unfolding b0 by (rule l)
    show "0x80 \<le> byte (char_of (0x80 + m))" unfolding b1 by simp
    show "byte (char_of (0x80 + m)) \<le> 0xBF" unfolding b1 using m by simp
  qed
  then show ?thesis
    unfolding e b0 b1 x y r by simp
qed


lemma Decode_three:
  assumes "0x7FF < r" "r \<le> 0xFFFF" "ValidRune r"
  shows "DecodeRuneInString (EncodeRune r @ s) = (r, 3)"
proof -
  define m where "m = r mod 64"
  define q where "q = r div 64"
  define q1 where "q1 = q mod 64"
  define q0 where "q0 = q div 64"
  have rq: "q * 64 + m = r" by (simp add: q_def m_def)
  have qq: "q0 * 64 + q1 = q" by (simp add: q0_def q1_def)
  have r: "q0 * 4096 + q1 * 64 + m = r" using rq qq by linarith
  have d0: "r div 4096 = q0" by (simp add: q0_def q_def div_mult2_eq)
  have m: "m < 64" by (simp add: m_def)
  have q1: "q1 < 64" by (simp add: q1_def)
  have qlo: "32 \<le> q" using assms(1) by (simp add: q_def)
  have qhi: "q < 1024" using assms(2) by (simp add: q_def)
  have q0: "q0 < 16" using qhi by (simp add: q0_def)
  have e: "EncodeRune r = [char_of (0xE0 + q0), char_of (0x80 + q1), char_of (0x80 + m)]"
    using assms by (simp add: EncodeRune_def d0 q1_def q_def m_def)
  have b0: "byte (char_of (0xE0 + q0)) = 0xE0 + q0" using q0 by (simp add: byte_char_of)
  have b1: "byte (char_of (0x80 + q1)) = 0x80 + q1" using q1 by (simp add: byte_char_of)
  have b2: "byte (char_of (0x80 + m)) = 0x80 + m" using m by (simp add: byte_char_of)
  have x: "(0xE0 + q0) mod 16 = q0" using q0 by (intro add_mod_small) simp_all
  have y: "(0x80 + q1) mod 64 = q1" using q1 by (intro add_mod_small) simp_all
  have z: "(0x80 + m) mod 64 = m" using m by (intro add_mod_small) simp_all
  have "\<exists>lo hi. lead (0xE0 + q0) = Some (3, lo, hi) \<and> lo \<le> 0x80 + q1 \<and> 0x80 + q1 \<le> hi"
  proof -
    consider "q0 = 0" | "q0 = 13" | "q0 \<noteq> 0" "q0 \<noteq> 13" by blast
    then show ?thesis
    proof cases
      case 1
      then have "32 \<le> q1" using qq qlo by simp
      then show ?thesis using 1 q1 by (simp add: lead_def)
    next
      case 2
      have "r < 0xE000" using r 2 q1 m by simp
      then have "r < 0xD800" using assms(3) by (simp add: ValidRune_def)
      then have "q < 864" by (simp add: q_def)
      then have "q1 < 32" using qq 2 by simp
      then show ?thesis using 2 by (simp add: lead_def)
    next
      case 3
      then show ?thesis using q0 q1 by (simp add: lead_def)
    qed
  qed
  then obtain lo hi where l: "lead (0xE0 + q0) = Some (3, lo, hi)"
    and lo: "lo \<le> 0x80 + q1" and hi: "0x80 + q1 \<le> hi" by blast
  have "DecodeRuneInString
          (char_of (0xE0 + q0) # char_of (0x80 + q1) # char_of (0x80 + m) # s) =
        (byte (char_of (0xE0 + q0)) mod 16 * 4096 + byte (char_of (0x80 + q1)) mod 64 * 64
         + byte (char_of (0x80 + m)) mod 64, 3)"
  proof (rule Decode3)
    show "RuneSelf \<le> byte (char_of (0xE0 + q0))" unfolding b0 by (simp add: RuneSelf_def)
    show "lead (byte (char_of (0xE0 + q0))) = Some (3, lo, hi)" unfolding b0 by (rule l)
    show "lo \<le> byte (char_of (0x80 + q1))" unfolding b1 by (rule lo)
    show "byte (char_of (0x80 + q1)) \<le> hi" unfolding b1 by (rule hi)
    show "cont (byte (char_of (0x80 + m)))" unfolding b2 using m by (simp add: cont_def)
  qed
  then show ?thesis
    unfolding e b0 b1 b2 x y z r by simp
qed

lemma Decode_four:
  assumes "0xFFFF < r" "r \<le> 0x10FFFF"
  shows "DecodeRuneInString (EncodeRune r @ s) = (r, 4)"
proof -
  define m where "m = r mod 64"
  define q where "q = r div 64"
  define q1 where "q1 = q mod 64"
  define p where "p = q div 64"
  define p1 where "p1 = p mod 64"
  define t where "t = p div 64"
  have rq: "q * 64 + m = r" by (simp add: q_def m_def)
  have qp: "p * 64 + q1 = q" by (simp add: p_def q1_def)
  have pt: "t * 64 + p1 = p" by (simp add: t_def p1_def)
  have r: "t * 262144 + p1 * 4096 + q1 * 64 + m = r" using rq qp pt by linarith
  have dp: "r div 4096 = p" by (simp add: p_def q_def div_mult2_eq)
  have dt: "r div 262144 = t" by (simp add: t_def p_def q_def div_mult2_eq)
  have m: "m < 64" by (simp add: m_def)
  have q1: "q1 < 64" by (simp add: q1_def)
  have p1: "p1 < 64" by (simp add: p1_def)
  have plo: "16 \<le> p" using assms(1) by (simp add: dp[symmetric])
  have phi: "p < 272" using assms(2) by (simp add: dp[symmetric])
  have t: "t < 5" using phi by (simp add: t_def)
  have v: "ValidRune r" using assms by (simp add: ValidRune_def)
  have e: "EncodeRune r = [char_of (0xF0 + t), char_of (0x80 + p1), char_of (0x80 + q1),
                           char_of (0x80 + m)]"
    using assms v by (simp add: EncodeRune_def dt dp p1_def q1_def q_def m_def)
  have b0: "byte (char_of (0xF0 + t)) = 0xF0 + t" using t by (simp add: byte_char_of)
  have b1: "byte (char_of (0x80 + p1)) = 0x80 + p1" using p1 by (simp add: byte_char_of)
  have b2: "byte (char_of (0x80 + q1)) = 0x80 + q1" using q1 by (simp add: byte_char_of)
  have b3: "byte (char_of (0x80 + m)) = 0x80 + m" using m by (simp add: byte_char_of)
  have x: "(0xF0 + t) mod 8 = t" using t by (intro add_mod_small) simp_all
  have y: "(0x80 + p1) mod 64 = p1" using p1 by (intro add_mod_small) simp_all
  have z: "(0x80 + q1) mod 64 = q1" using q1 by (intro add_mod_small) simp_all
  have w: "(0x80 + m) mod 64 = m" using m by (intro add_mod_small) simp_all
  have "\<exists>lo hi. lead (0xF0 + t) = Some (4, lo, hi) \<and> lo \<le> 0x80 + p1 \<and> 0x80 + p1 \<le> hi"
  proof -
    consider "t = 0" | "t = 4" | "t \<noteq> 0" "t \<noteq> 4" by blast
    then show ?thesis
    proof cases
      case 1
      then have "16 \<le> p1" using pt plo by simp
      then show ?thesis using 1 p1 by (simp add: lead_def)
    next
      case 2
      then have "p1 < 16" using pt phi by simp
      then show ?thesis using 2 by (simp add: lead_def)
    next
      case 3
      then show ?thesis using t p1 by (simp add: lead_def)
    qed
  qed
  then obtain lo hi where l: "lead (0xF0 + t) = Some (4, lo, hi)"
    and lo: "lo \<le> 0x80 + p1" and hi: "0x80 + p1 \<le> hi" by blast
  have "DecodeRuneInString
          (char_of (0xF0 + t) # char_of (0x80 + p1) # char_of (0x80 + q1)
           # char_of (0x80 + m) # s) =
        (byte (char_of (0xF0 + t)) mod 8 * 262144 + byte (char_of (0x80 + p1)) mod 64 * 4096
         + byte (char_of (0x80 + q1)) mod 64 * 64 + byte (char_of (0x80 + m)) mod 64, 4)"
  proof (rule Decode4)
    show "RuneSelf \<le> byte (char_of (0xF0 + t))" unfolding b0 by (simp add: RuneSelf_def)
    show "lead (byte (char_of (0xF0 + t))) = Some (4, lo, hi)" unfolding b0 by (rule l)
    show "lo \<le> byte (char_of (0x80 + p1))" unfolding b1 by (rule lo)
    show "byte (char_of (0x80 + p1)) \<le> hi" unfolding b1 by (rule hi)
    show "cont (byte (char_of (0x80 + q1)))" unfolding b2 using q1 by (simp add: cont_def)
    show "cont (byte (char_of (0x80 + m)))" unfolding b3 using m by (simp add: cont_def)
  qed
  then show ?thesis
    unfolding e b0 b1 b2 b3 x y z w r by simp
qed


lemma runes_step:
  assumes "DecodeRuneInString (e @ s) = (r, length e)" "e \<noteq> []"
  shows "runes (e @ s) = r # runes s"
proof (cases e)
  case Nil
  then show ?thesis using assms by simp
next
  case (Cons c e')
  then show ?thesis using assms by simp
qed

lemma EncodeRune_decode:
  assumes "ValidRune r"
  shows "DecodeRuneInString (EncodeRune r @ s) = (r, length (EncodeRune r))
         \<and> EncodeRune r \<noteq> []"
proof -
  consider "r \<le> 0x7F" | "0x7F < r" "r \<le> 0x7FF" | "0x7FF < r" "r \<le> 0xFFFF"
    | "0xFFFF < r" "r \<le> 0x10FFFF"
  proof -
    have "r \<le> 0x10FFFF" using assms by (simp add: ValidRune_def) linarith
    then show ?thesis using that by linarith
  qed
  then show ?thesis
  proof cases
    case 1
    then show ?thesis using Decode_one[OF 1, of s] by (simp add: EncodeRune_def)
  next
    case 2
    then show ?thesis using Decode_two[OF 2, of s] by (simp add: EncodeRune_def)
  next
    case 3
    then show ?thesis using Decode_three[OF 3 assms, of s] assms by (simp add: EncodeRune_def)
  next
    case 4
    then show ?thesis using Decode_four[OF 4, of s] assms by (simp add: EncodeRune_def)
  qed
qed

lemma runes_EncodeRune:
  "list_all ValidRune rs \<Longrightarrow> runes (concat (map EncodeRune rs) @ s) = rs @ runes s"
proof (induction rs)
  case Nil
  show ?case by simp
next
  case (Cons r rs)
  then have v: "ValidRune r" and IH: "runes (concat (map EncodeRune rs) @ s) = rs @ runes s"
    by simp_all
  from EncodeRune_decode[OF v, of "concat (map EncodeRune rs) @ s"]
  have "runes (EncodeRune r @ concat (map EncodeRune rs) @ s)
        = r # runes (concat (map EncodeRune rs) @ s)"
    by (intro runes_step) simp_all
  then show ?case using IH by simp
qed

lemma runeLen_EncodeRune:
  "list_all ValidRune rs \<Longrightarrow> runeLen (concat (map EncodeRune rs)) = length rs"
  using runes_EncodeRune[of rs "[]"] by (simp add: runeLen_def)

text \<open>
  Claim C8. \<open>requireSubject\<close> fails exactly when the string is empty after trimming or
  has more than 255 runes. It accepts every string of 255 runes that is not blank,
  rejects every string of 256 runes, and rejects the empty string. The count is of
  code points, not of bytes: the encoding of a list of valid code points has as many
  runes as the list has elements, whatever the width of their encodings.
\<close>

theorem requireSubject_spec:
  "(requireSubject s \<noteq> None) = (TrimSpace s = [] \<or> 255 < runeLen s)
   \<and> (TrimSpace t \<noteq> [] \<and> runeLen t = 255 \<longrightarrow> requireSubject t = None)
   \<and> (runeLen u = 256 \<longrightarrow> requireSubject u = Some ErrSubject)
   \<and> requireSubject [] = Some ErrSubject
   \<and> (list_all ValidRune rs \<longrightarrow> runeLen (concat (map EncodeRune rs)) = length rs)"
  by (simp add: requireSubject_def MaxSubjectLength_def runeLen_EncodeRune)

theorem requireSubject_spec_witness:
  "TrimSpace (''a'' @ concat (replicate 253 [CHR 0xC3, CHR 0xA9]) @ ''b'') \<noteq> []
   \<and> runeLen (''a'' @ concat (replicate 253 [CHR 0xC3, CHR 0xA9]) @ ''b'') = 255
   \<and> length (''a'' @ concat (replicate 253 [CHR 0xC3, CHR 0xA9]) @ ''b'') = 508
   \<and> requireSubject (''a'' @ concat (replicate 253 [CHR 0xC3, CHR 0xA9]) @ ''b'') = None
   \<and> runeLen (concat (replicate 256 [CHR 0xC3, CHR 0xA9])) = 256
   \<and> requireSubject (concat (replicate 256 [CHR 0xC3, CHR 0xA9])) = Some ErrSubject
   \<and> list_all ValidRune [0x48, 0xE9, 0x4E16, 0x1F600]
   \<and> runeLen (concat (map EncodeRune [0x48, 0xE9, 0x4E16, 0x1F600])) = 4
   \<and> length (concat (map EncodeRune [0x48, 0xE9, 0x4E16, 0x1F600])) = 10"
proof -
  let ?t = "''a'' @ concat (replicate 253 [CHR 0xC3, CHR 0xA9]) @ ''b''"
  let ?u = "concat (replicate 256 [CHR 0xC3, CHR 0xA9])"
  let ?rs = "[0x48, 0xE9, 0x4E16, 0x1F600] :: rune list"
  have "TrimSpace ?t = ?t"
    by (rule TrimSpace_keep) (simp_all add: byte_def RuneSelf_def asciiSpace_def)
  then have t1: "TrimSpace ?t \<noteq> []" by simp
  have "runes ?t = 0x61 # replicate 253 0xE9 @ runes ''b''"
    using runes_two_replicate[of 253 "''b''"] runes_ascii[of "CHR ''a''"]
    by (simp add: byte_def RuneSelf_def del: runes.simps)
  then have t2: "runeLen ?t = 255"
    by (simp add: runeLen_def DecodeRuneInString_def byte_def RuneSelf_def)
  have t3: "length ?t = 508" by (simp add: length_concat sum_list_replicate)
  have u1: "runeLen ?u = 256"
    using runes_two_replicate[of 256 "[]"] by (simp add: runeLen_def)
  have v: "list_all ValidRune ?rs" by (simp add: ValidRune_def)
  have n: "length (concat (map EncodeRune ?rs)) = 10"
    by (simp add: EncodeRune_def ValidRune_def)
  note spec = requireSubject_spec[of "[]" ?t ?u ?rs]
  note c1 = spec[THEN conjunct2, THEN conjunct1, THEN mp, OF conjI, OF t1 t2]
  note c2 = spec[THEN conjunct2, THEN conjunct2, THEN conjunct1, THEN mp, OF u1]
  note c3 = spec[THEN conjunct2, THEN conjunct2, THEN conjunct2, THEN conjunct2, THEN mp, OF v]
  have c3': "runeLen (concat (map EncodeRune ?rs)) = 4" using c3 by simp
  from t1 t2 t3 c1 u1 c2 v c3' n show ?thesis by (intro conjI)
qed

section \<open>Base64: decoding inverts encoding\<close>

lemma encodeStd_length: "length encodeStd = 64"
  by (simp add: encodeStd_def)

lemma encodeStd_distinct: "distinct encodeStd"
  by (simp add: encodeStd_def)

lemma decodeMap_encodeStd: "i < 64 \<Longrightarrow> decodeMap (encodeStd ! i) = i"
  using map_of_zip_nth[of encodeStd "[0..<64]" i] encodeStd_length encodeStd_distinct
  by (simp add: decodeMap_def)

lemma pad_not_in: "CHR ''='' \<notin> set encodeStd"
  by (simp add: encodeStd_def)

lemma decodeMap_pad: "decodeMap (CHR ''='') = 0xFF"
proof -
  have "map_of (zip encodeStd [0..<64]) (CHR ''='') = None"
    using pad_not_in by (simp add: map_of_zip_is_None encodeStd_length)
  then show ?thesis by (simp add: decodeMap_def)
qed

lemma char_of_byte: "char_of (byte c) = c"
  by (simp add: byte_def)

lemma sextets:
  fixes v :: nat
  assumes "v < 16777216"
  shows "v div 262144 mod 64 * 262144 + v div 4096 mod 64 * 4096 + v div 64 mod 64 * 64
         + v mod 64 = v"
proof -
  define q1 where "q1 = v div 64"
  define q2 where "q2 = q1 div 64"
  define q3 where "q3 = q2 div 64"
  have e1: "v = q1 * 64 + v mod 64" by (simp add: q1_def)
  have e2: "q1 = q2 * 64 + q1 mod 64" by (simp add: q2_def)
  have e3: "q2 = q3 * 64 + q2 mod 64" by (simp add: q3_def)
  have d2: "v div 4096 = q2" by (simp add: q1_def q2_def div_mult2_eq)
  have d3: "v div 262144 = q3" by (simp add: q1_def q2_def q3_def div_mult2_eq)
  have "q3 < 64" using assms d3 by (simp add: less_mult_imp_div_less)
  then have m3: "q3 mod 64 = q3" by simp
  show ?thesis
    unfolding d2 d3 m3 q1_def[symmetric]
    using e1 e2 e3 by linarith
qed


lemma decodeFrom_value:
  assumes "i < 64"
  shows "decodeFrom dbuf (encodeStd ! i # src) =
     (if length dbuf = 3 then
        (case decodeFrom [] src of
           None \<Rightarrow> None
         | Some out \<Rightarrow> Some (quantumBytes (dbuf @ [i]) @ out))
      else decodeFrom (dbuf @ [i]) src)"
  using assms by (simp add: decodeMap_encodeStd cong: option.case_cong)

lemma decodeFrom_pad2: "length dbuf = 2 \<Longrightarrow> decodeFrom dbuf ''=='' = Some (quantumBytes dbuf)"
  by (simp add: decodeMap_pad isNewline_def)

lemma decodeFrom_pad1: "length dbuf = 3 \<Longrightarrow> decodeFrom dbuf ''='' = Some (quantumBytes dbuf)"
  by (simp add: decodeMap_pad isNewline_def)

lemma char_of_low: "char_of (x * 256 + byte c) = c"
proof -
  have "(x * 256 + byte c) mod 256 = byte c mod 256" by simp
  then have "char_of (x * 256 + byte c) = char_of (byte c)"
    by (simp only: char_of_quasi_inj)
  then show ?thesis by (simp add: char_of_byte)
qed

lemma quantumBytes_val:
  "quantumBytes [s0, s1, s2, s3] =
     [char_of ((s0 * 262144 + s1 * 4096 + s2 * 64 + s3) div 65536),
      char_of ((s0 * 262144 + s1 * 4096 + s2 * 64 + s3) div 256),
      char_of (s0 * 262144 + s1 * 4096 + s2 * 64 + s3)]"
  "quantumBytes [s0, s1, s2] =
     [char_of ((s0 * 262144 + s1 * 4096 + s2 * 64) div 65536),
      char_of ((s0 * 262144 + s1 * 4096 + s2 * 64) div 256)]"
  "quantumBytes [s0, s1] = [char_of ((s0 * 262144 + s1 * 4096) div 65536)]"
  by (simp_all add: quantumBytes_def Let_def)

lemma quantumBytes4:
  fixes a b c :: char
  defines "v \<equiv> byte a * 65536 + byte b * 256 + byte c"
  shows "quantumBytes [v div 262144 mod 64, v div 4096 mod 64, v div 64 mod 64, v mod 64]
         = [a, b, c]"
proof -
  have lt: "v < 16777216" using byte_lt[of a] byte_lt[of b] byte_lt[of c] by (simp add: v_def)
  have hi: "v div 65536 = byte a" using byte_lt[of b] byte_lt[of c] by (simp add: v_def)
  have mid: "v div 256 = byte a * 256 + byte b" using byte_lt[of c] by (simp add: v_def)
  have low: "v = (byte a * 256 + byte b) * 256 + byte c" by (simp add: v_def)
  have "char_of (v div 65536) = a" by (simp add: hi char_of_byte)
  moreover have "char_of (v div 256) = b" unfolding mid by (rule char_of_low)
  moreover have "char_of v = c" by (subst low) (rule char_of_low)
  ultimately show ?thesis
    by (simp only: quantumBytes_val sextets[OF lt])
qed

lemma quantumBytes3:
  fixes a b :: char
  defines "v \<equiv> byte a * 65536 + byte b * 256"
  shows "quantumBytes [v div 262144 mod 64, v div 4096 mod 64, v div 64 mod 64] = [a, b]"
proof -
  have lt: "v < 16777216" using byte_lt[of a] byte_lt[of b] by (simp add: v_def)
  have hi: "v div 65536 = byte a" using byte_lt[of b] by (simp add: v_def)
  have mid: "v div 256 = byte a * 256 + byte b" by (simp add: v_def)
  have z: "v mod 64 = 0" by (simp add: v_def)
  have "char_of (v div 65536) = a" by (simp add: hi char_of_byte)
  moreover have "char_of (v div 256) = b" unfolding mid by (rule char_of_low)
  moreover have "v div 262144 mod 64 * 262144 + v div 4096 mod 64 * 4096 + v div 64 mod 64 * 64 = v"
    using sextets[OF lt] by (simp only: z add_0_right)
  ultimately show ?thesis
    by (simp only: quantumBytes_val)
qed

lemma quantumBytes2:
  fixes a :: char
  defines "v \<equiv> byte a * 65536"
  shows "quantumBytes [v div 262144 mod 64, v div 4096 mod 64] = [a]"
proof -
  have lt: "v < 16777216" using byte_lt[of a] by (simp add: v_def)
  have hi: "v div 65536 = byte a" by (simp add: v_def)
  have z: "v mod 64 = 0" by (simp add: v_def)
  have "v div 64 = byte a * 1024" by (simp add: v_def)
  then have z2: "v div 64 mod 64 = 0" by simp
  have "char_of (v div 65536) = a" by (simp add: hi char_of_byte)
  moreover have "v div 262144 mod 64 * 262144 + v div 4096 mod 64 * 4096 = v"
    using sextets[OF lt] by (simp only: z z2 add_0_right mult_zero_left)
  ultimately show ?thesis
    by (simp only: quantumBytes_val)
qed

lemma decode_quad:
  "decodeFrom [] (encodeStd ! (s0 mod 64) # encodeStd ! (s1 mod 64) # encodeStd ! (s2 mod 64)
                  # encodeStd ! (s3 mod 64) # rest) =
     (case decodeFrom [] rest of
        None \<Rightarrow> None
      | Some out \<Rightarrow> Some (quantumBytes [s0 mod 64, s1 mod 64, s2 mod 64, s3 mod 64] @ out))"
  by (simp add: decodeFrom_value del: decodeFrom.simps cong: option.case_cong)

lemma decode_pad1:
  "decodeFrom [] [encodeStd ! (s0 mod 64), encodeStd ! (s1 mod 64), encodeStd ! (s2 mod 64),
                  CHR ''=''] =
     Some (quantumBytes [s0 mod 64, s1 mod 64, s2 mod 64])"
  by (simp add: decodeFrom_value decodeFrom_pad1 del: decodeFrom.simps)

lemma decode_pad2:
  "decodeFrom [] [encodeStd ! (s0 mod 64), encodeStd ! (s1 mod 64), CHR ''='', CHR ''=''] =
     Some (quantumBytes [s0 mod 64, s1 mod 64])"
  by (simp add: decodeFrom_value decodeFrom_pad2 del: decodeFrom.simps)

lemma base64_roundtrip: "base64_DecodeString (base64_EncodeToString content) = Some content"
  unfolding base64_DecodeString_def
proof (induction content rule: base64_EncodeToString.induct)
  case 1
  show ?case by simp
next
  case (2 a)
  show ?case
    by (simp only: base64_EncodeToString.simps Let_def decode_pad2 quantumBytes2)
next
  case (3 a b)
  show ?case
    by (simp only: base64_EncodeToString.simps Let_def decode_pad1 quantumBytes3)
next
  case (4 a b c src)
  have "decodeFrom [] (base64_EncodeToString (a # b # c # src)) =
        (case decodeFrom [] (base64_EncodeToString src) of
           None \<Rightarrow> None
         | Some out \<Rightarrow> Some ([a, b, c] @ out))"
    by (simp only: base64_EncodeToString.simps Let_def decode_quad quantumBytes4)
  then show ?case using 4 by simp
qed


lemma decodeMap_other: "c \<notin> set encodeStd \<Longrightarrow> decodeMap c = 0xFF"
proof -
  assume "c \<notin> set encodeStd"
  then have "map_of (zip encodeStd [0..<64]) c = None"
    by (simp add: map_of_zip_is_None encodeStd_length)
  then show ?thesis by (simp add: decodeMap_def)
qed

lemma DecodeString_empty: "base64_DecodeString [] = Some []"
  by (simp add: base64_DecodeString_def)

lemma DecodeString_newline: "base64_DecodeString [CHR 0x0A] = Some []"
proof -
  have "decodeMap (CHR 0x0A) = 0xFF"
    by (rule decodeMap_other) (simp add: encodeStd_def)
  then show ?thesis by (simp add: base64_DecodeString_def isNewline_def)
qed

lemma DecodeString_bangs: "base64_DecodeString ''!!!'' = None"
proof -
  have "decodeMap (CHR ''!'') = 0xFF"
    by (rule decodeMap_other) (simp add: encodeStd_def)
  then show ?thesis by (simp add: base64_DecodeString_def isNewline_def)
qed

lemma TrimSpace_newline: "TrimSpace [CHR 0x0A] = []"
  by (simp add: byte_def RuneSelf_def asciiSpace_def)

lemma Encode_hello: "base64_EncodeToString ''Hello, world!'' = ''SGVsbG8sIHdvcmxkIQ==''"
  by (simp add: byte_def encodeStd_def)

text \<open>
  Claim C4. For every file name that is not blank after trimming and every byte sequence,
  the empty one too, \<open>AttachmentFromContent\<close> succeeds, and decoding the \<open>Content\<close> of
  the attachment it returns gives the byte sequence back.
\<close>

theorem AttachmentFromContent_roundtrip:
  assumes "TrimSpace fileName \<noteq> []"
  shows "\<exists>a. AttachmentFromContent detect fileName content contentType inline = Inr a
           \<and> base64_DecodeString (Content a) = Some content
           \<and> FileName a = fileName"
  using assms by (simp add: AttachmentFromContent_def Let_def base64_roundtrip)

theorem AttachmentFromContent_roundtrip_witness:
  "TrimSpace ''hello.txt'' \<noteq> []
   \<and> (\<exists>a. AttachmentFromContent octetStream ''hello.txt'' ''Hello, world!'' ''text/plain'' False
            = Inr a
          \<and> base64_DecodeString (Content a) = Some ''Hello, world!''
          \<and> FileName a = ''hello.txt'')
   \<and> (\<exists>a. AttachmentFromContent octetStream ''hello.txt'' [] [] False = Inr a
          \<and> base64_DecodeString (Content a) = Some []
          \<and> FileName a = ''hello.txt'')"
proof -
  have "TrimSpace ''hello.txt'' = ''hello.txt''"
    by (rule TrimSpace_keep) (simp_all add: byte_def RuneSelf_def asciiSpace_def)
  then have ne: "TrimSpace ''hello.txt'' \<noteq> []" by simp
  show ?thesis
    using ne
      AttachmentFromContent_roundtrip[OF ne, of octetStream "''Hello, world!''" "''text/plain''" False]
      AttachmentFromContent_roundtrip[OF ne, of octetStream "[]" "[]" False]
    by blast
qed

section \<open>Properties of the attachment constructors and of the send-time check\<close>

lemma TrimSpace_b64_txt: "TrimSpace ''b64.txt'' \<noteq> []"
proof -
  have "TrimSpace ''b64.txt'' = ''b64.txt''"
    by (rule TrimSpace_keep) (simp_all add: byte_def RuneSelf_def asciiSpace_def)
  then show ?thesis by simp
qed

lemma FromBase64_invalid:
  "base64_DecodeString s = None \<Longrightarrow>
   AttachmentFromBase64Content detect fileName s contentType inline = Inl ErrInvalidBase64"
  by (simp add: AttachmentFromBase64Content_def)

lemma FromBase64_no_name:
  "base64_DecodeString s \<noteq> None \<Longrightarrow> TrimSpace fileName = [] \<Longrightarrow>
   AttachmentFromBase64Content detect fileName s contentType inline = Inl ErrFileNameRequired"
  by (auto simp: AttachmentFromBase64Content_def NewAttachment_def Let_def)

lemma FromBase64_blank:
  "base64_DecodeString s \<noteq> None \<Longrightarrow> TrimSpace fileName \<noteq> [] \<Longrightarrow> TrimSpace s = [] \<Longrightarrow>
   AttachmentFromBase64Content detect fileName s contentType inline = Inl ErrContentEmpty"
  by (auto simp: AttachmentFromBase64Content_def NewAttachment_def Let_def)

lemma FromBase64_ok:
  "base64_DecodeString s \<noteq> None \<Longrightarrow> TrimSpace fileName \<noteq> [] \<Longrightarrow> TrimSpace s \<noteq> [] \<Longrightarrow>
   \<exists>a. AttachmentFromBase64Content detect fileName s contentType inline = Inr a
       \<and> Content a = s \<and> FileName a = fileName"
  by (auto simp: AttachmentFromBase64Content_def NewAttachment_def Let_def)

text \<open>
  Claim C2, as stated, fails: not every valid base64 string is accepted. The empty string
  and a lone newline decode without error (to no bytes), and \<open>NewAttachment\<close> rejects
  them as empty content, with a file name that is in order.
\<close>

theorem AttachmentFromBase64Content_counterexample:
  "base64_DecodeString [] = Some []
   \<and> AttachmentFromBase64Content octetStream ''b64.txt'' [] ''text/plain'' False
       = Inl ErrContentEmpty
   \<and> base64_DecodeString [CHR 0x0A] = Some []
   \<and> AttachmentFromBase64Content octetStream ''b64.txt'' [CHR 0x0A] ''text/plain'' False
       = Inl ErrContentEmpty"
proof -
  have t0: "TrimSpace [] = []" by simp
  have d0: "base64_DecodeString [] \<noteq> None" by (simp add: DecodeString_empty)
  have d1: "base64_DecodeString [CHR 0x0A] \<noteq> None" by (simp add: DecodeString_newline)
  note a = FromBase64_blank[OF d0 TrimSpace_b64_txt t0, of octetStream "''text/plain''" False]
  note b = FromBase64_blank[OF d1 TrimSpace_b64_txt TrimSpace_newline, of octetStream
      "''text/plain''" False]
  from DecodeString_empty a DecodeString_newline b show ?thesis by (intro conjI)
qed

text \<open>
  Claim C2, amended. \<open>AttachmentFromBase64Content\<close> fails for every string that is not
  valid base64. For a string that is valid base64 and not blank after trimming, and a
  file name that is not blank after trimming, it succeeds and the \<open>Content\<close> of the
  attachment is the string unchanged. A valid string that is blank is rejected as empty
  content, and a blank file name is rejected.
\<close>

theorem AttachmentFromBase64Content_spec:
  "(base64_DecodeString s = None \<longrightarrow>
      AttachmentFromBase64Content detect fileName s contentType inline = Inl ErrInvalidBase64)
   \<and> (base64_DecodeString s \<noteq> None \<and> TrimSpace fileName \<noteq> [] \<and> TrimSpace s \<noteq> [] \<longrightarrow>
      (\<exists>a. AttachmentFromBase64Content detect fileName s contentType inline = Inr a
          \<and> Content a = s \<and> FileName a = fileName))
   \<and> (base64_DecodeString s \<noteq> None \<and> TrimSpace fileName \<noteq> [] \<and> TrimSpace s = [] \<longrightarrow>
      AttachmentFromBase64Content detect fileName s contentType inline = Inl ErrContentEmpty)
   \<and> (base64_DecodeString s \<noteq> None \<and> TrimSpace fileName = [] \<longrightarrow>
      AttachmentFromBase64Content detect fileName s contentType inline = Inl ErrFileNameRequired)"
  by (intro conjI impI; (elim conjE)?;
      (rule FromBase64_invalid FromBase64_ok FromBase64_blank FromBase64_no_name; assumption))

theorem AttachmentFromBase64Content_spec_witness:
  "base64_DecodeString ''!!!'' = None
   \<and> AttachmentFromBase64Content octetStream ''b64.txt'' ''!!!'' ''text/plain'' False
       = Inl ErrInvalidBase64
   \<and> base64_DecodeString ''SGVsbG8sIHdvcmxkIQ=='' \<noteq> None
   \<and> TrimSpace ''b64.txt'' \<noteq> []
   \<and> TrimSpace ''SGVsbG8sIHdvcmxkIQ=='' \<noteq> []
   \<and> (\<exists>a. AttachmentFromBase64Content octetStream ''b64.txt'' ''SGVsbG8sIHdvcmxkIQ==''
              ''text/plain'' False = Inr a
          \<and> Content a = ''SGVsbG8sIHdvcmxkIQ=='' \<and> FileName a = ''b64.txt'')"
proof -
  have dec: "base64_DecodeString ''SGVsbG8sIHdvcmxkIQ=='' \<noteq> None"
    using base64_roundtrip[of "''Hello, world!''"] by (simp only: Encode_hello) simp
  have "TrimSpace ''SGVsbG8sIHdvcmxkIQ=='' = ''SGVsbG8sIHdvcmxkIQ==''"
    by (rule TrimSpace_keep) (simp_all add: byte_def RuneSelf_def asciiSpace_def)
  then have tr: "TrimSpace ''SGVsbG8sIHdvcmxkIQ=='' \<noteq> []" by simp
  note s1 = AttachmentFromBase64Content_spec[of "''!!!''" octetStream "''b64.txt''"
      "''text/plain''" False]
  note s2 = AttachmentFromBase64Content_spec[of "''SGVsbG8sIHdvcmxkIQ==''" octetStream
      "''b64.txt''" "''text/plain''" False]
  have c2: "AttachmentFromBase64Content octetStream ''b64.txt'' ''!!!'' ''text/plain'' False
       = Inl ErrInvalidBase64"
    using s1 DecodeString_bangs by (elim conjE) (rule mp)
  have c6: "\<exists>a. AttachmentFromBase64Content octetStream ''b64.txt'' ''SGVsbG8sIHdvcmxkIQ==''
              ''text/plain'' False = Inr a
          \<and> Content a = ''SGVsbG8sIHdvcmxkIQ=='' \<and> FileName a = ''b64.txt''"
    using s2 dec TrimSpace_b64_txt tr by (elim conjE) (rule mp, assumption, intro conjI)
  from DecodeString_bangs c2 dec TrimSpace_b64_txt tr c6 show ?thesis by (intro conjI)
qed

section \<open>Properties of the request builders\<close>

lemma requireSubject_Hi: "requireSubject ''Hi'' = None"
  by (simp add: requireSubject_def MaxSubjectLength_def runeLen_def DecodeRuneInString_def
      trimStop.simps byte_def RuneSelf_def asciiSpace_def)

lemma basicEmailPayload_minimal:
  assumes "BasicEmailData.To data = [a]"
    and "BasicEmailData.Subject data = ''Hi''"
    and "BasicEmailData.HTML data \<noteq> None \<or> BasicEmailData.Plain data \<noteq> None"
    and "BasicEmailData.Cc data = []"
    and "BasicEmailData.Bcc data = []"
    and "BasicEmailData.ReplyTo data = []"
    and "BasicEmailData.Tracking data = None"
    and "BasicEmailData.Tags data = None"
    and "BasicEmailData.Headers data = None"
    and "BasicEmailData.Attachments data = []"
    and "BasicEmailData.ScheduledAt data = None"
    and "BasicEmailData.ReferenceID data = None"
  shows "basicEmailPayload rnd data =
     Inr [''subject'' \<mapsto> AString ''Hi'',
          ''from'' \<mapsto> AStringMap (ToJSON (BasicEmailData.From data)),
          ''to'' \<mapsto> AStringMaps [ToJSON a],
          ''reference_id'' \<mapsto> AString (GetReferenceID rnd),
          ''html'' \<mapsto> AStringPtr (BasicEmailData.HTML data),
          ''plain'' \<mapsto> AStringPtr (BasicEmailData.Plain data)]"
  using assms
  by (auto simp: basicEmailPayload_def buildBasePayload_def Let_def requireSubject_Hi
      emailAddressesToJSON_def)


text \<open>
  Claim C1. For a basic-email request with exactly one address in \<open>To\<close>, the subject
  \<open>"Hi"\<close>, an HTML body, and no Cc, Bcc, ReplyTo, Tags, Headers, Attachments, Tracking,
  ScheduledAt and ReferenceID, \<open>SendBasicEmail\<close> builds a payload and hands it to
  \<open>sendRequest\<close>; the payload has the keys \<open>subject\<close>, \<open>from\<close>, \<open>to\<close> (the list of the one
  address object), \<open>html\<close> and a \<open>reference_id\<close> of 24 hexadecimal characters, and it has
  none of the keys \<open>cc\<close>, \<open>bcc\<close>, \<open>tags\<close>, \<open>headers\<close>, \<open>attachments\<close>.
\<close>

theorem basicEmailPayload_scenario:
  assumes "BasicEmailData.To data = [a]"
    and "BasicEmailData.Subject data = ''Hi''"
    and "BasicEmailData.HTML data = Some h"
    and "BasicEmailData.Cc data = []"
    and "BasicEmailData.Bcc data = []"
    and "BasicEmailData.ReplyTo data = []"
    and "BasicEmailData.Tracking data = None"
    and "BasicEmailData.Tags data = None"
    and "BasicEmailData.Headers data = None"
    and "BasicEmailData.Attachments data = []"
    and "BasicEmailData.ScheduledAt data = None"
    and "BasicEmailData.ReferenceID data = None"
  shows "\<exists>p r. basicEmailPayload rnd data = Inr p
     \<and> SendBasicEmail sendRequest rnd data =
         (case sendRequest ''POST'' ''emails'' p of
            Inl err \<Rightarrow> Inl err
          | Inr out \<Rightarrow>
              if Success out then Inr (DataReferenceID out)
              else Inl (ErrAPI (if Message out = [] then ''Unknown'' else Message out)))
     \<and> p ''subject'' = Some (AString ''Hi'')
     \<and> p ''from'' = Some (AStringMap (ToJSON (BasicEmailData.From data)))
     \<and> p ''to'' = Some (AStringMaps [ToJSON a])
     \<and> ToJSON a ''address'' = Some (Address a)
     \<and> p ''html'' = Some (AStringPtr (Some h))
     \<and> p ''reference_id'' = Some (AString r)
     \<and> length r = 24 \<and> list_all hexClass r
     \<and> p ''cc'' = None \<and> p ''bcc'' = None \<and> p ''tags'' = None \<and> p ''headers'' = None
     \<and> p ''attachments'' = None
     \<and> dom p = {''subject'', ''from'', ''to'', ''reference_id'', ''html'', ''plain''}"
proof -
  let ?p = "[''subject'' \<mapsto> AString ''Hi'',
          ''from'' \<mapsto> AStringMap (ToJSON (BasicEmailData.From data)),
          ''to'' \<mapsto> AStringMaps [ToJSON a],
          ''reference_id'' \<mapsto> AString (GetReferenceID rnd),
          ''html'' \<mapsto> AStringPtr (BasicEmailData.HTML data),
          ''plain'' \<mapsto> AStringPtr (BasicEmailData.Plain data)]"
  have body: "BasicEmailData.HTML data \<noteq> None \<or> BasicEmailData.Plain data \<noteq> None"
    using assms(3) by simp
  have p: "basicEmailPayload rnd data = Inr ?p"
    using assms(1,2) body assms(4-12) by (rule basicEmailPayload_minimal)
  have s: "SendBasicEmail sendRequest rnd data =
         (case sendRequest ''POST'' ''emails'' ?p of
            Inl err \<Rightarrow> Inl err
          | Inr out \<Rightarrow>
              if Success out then Inr (DataReferenceID out)
              else Inl (ErrAPI (if Message out = [] then ''Unknown'' else Message out)))"
    by (simp add: SendBasicEmail_def p)
  have r: "length (GetReferenceID rnd) = 24 \<and> list_all hexClass (GetReferenceID rnd)"
    using GetReferenceID_match[of rnd] by (simp add: refIDRe_MatchString_def)
  have a: "ToJSON a ''address'' = Some (Address a)"
    by (simp add: ToJSON_def split: option.split)
  have keys: "?p ''subject'' = Some (AString ''Hi'')
     \<and> ?p ''from'' = Some (AStringMap (ToJSON (BasicEmailData.From data)))
     \<and> ?p ''to'' = Some (AStringMaps [ToJSON a])
     \<and> ?p ''html'' = Some (AStringPtr (Some h))
     \<and> ?p ''reference_id'' = Some (AString (GetReferenceID rnd))
     \<and> ?p ''cc'' = None \<and> ?p ''bcc'' = None \<and> ?p ''tags'' = None \<and> ?p ''headers'' = None
     \<and> ?p ''attachments'' = None"
    using assms(3) by simp
  have d: "dom ?p = {''subject'', ''from'', ''to'', ''reference_id'', ''html'', ''plain''}"
    by auto
  show ?thesis
    using p s r a keys d by blast
qed

theorem basicEmailPayload_scenario_witness:
  "\<exists>p r. basicEmailPayload (Secure (\<lambda>i. CHR 0x2A)) sampleData = Inr p
     \<and> p ''subject'' = Some (AString ''Hi'')
     \<and> p ''from'' = Some (AStringMap [''address'' \<mapsto> ''me@b.com''])
     \<and> p ''to'' = Some (AStringMaps [[''address'' \<mapsto> ''a@b.com'']])
     \<and> p ''html'' = Some (AStringPtr (Some ''<p>x</p>''))
     \<and> p ''reference_id'' = Some (AString r)
     \<and> length r = 24 \<and> list_all hexClass r
     \<and> p ''cc'' = None \<and> p ''bcc'' = None \<and> p ''tags'' = None \<and> p ''headers'' = None
     \<and> p ''attachments'' = None
     \<and> dom p = {''subject'', ''from'', ''to'', ''reference_id'', ''html'', ''plain''}"
proof -
  let ?a = "\<lparr>Address = ''a@b.com'', DisplayName = None\<rparr>"
  have j1: "ToJSON (BasicEmailData.From sampleData) = [''address'' \<mapsto> ''me@b.com'']"
    by (simp add: ToJSON_def sampleData_def)
  have j2: "ToJSON ?a = [''address'' \<mapsto> ''a@b.com'']"
    by (simp add: ToJSON_def)
  have h: "BasicEmailData.To sampleData = [?a]"
    "BasicEmailData.Subject sampleData = ''Hi''"
    "BasicEmailData.HTML sampleData = Some ''<p>x</p>''"
    "BasicEmailData.Cc sampleData = []"
    "BasicEmailData.Bcc sampleData = []"
    "BasicEmailData.ReplyTo sampleData = []"
    "BasicEmailData.Tracking sampleData = None"
    "BasicEmailData.Tags sampleData = None"
    "BasicEmailData.Headers sampleData = None"
    "BasicEmailData.Attachments sampleData = []"
    "BasicEmailData.ScheduledAt sampleData = None"
    "BasicEmailData.ReferenceID sampleData = None"
    by (simp_all add: sampleData_def)
  from basicEmailPayload_scenario[OF h, of "Secure (\<lambda>i. CHR 0x2A)" "\<lambda>m e b. Inl (ErrRequest [])"]
  obtain p r where
    "basicEmailPayload (Secure (\<lambda>i. CHR 0x2A)) sampleData = Inr p"
    "p ''subject'' = Some (AString ''Hi'')"
    "p ''from'' = Some (AStringMap (ToJSON (BasicEmailData.From sampleData)))"
    "p ''to'' = Some (AStringMaps [ToJSON ?a])"
    "p ''html'' = Some (AStringPtr (Some ''<p>x</p>''))"
    "p ''reference_id'' = Some (AString r)"
    "length r = 24" "list_all hexClass r"
    "p ''cc'' = None" "p ''bcc'' = None" "p ''tags'' = None" "p ''headers'' = None"
    "p ''attachments'' = None"
    "dom p = {''subject'', ''from'', ''to'', ''reference_id'', ''html'', ''plain''}"
    by (elim exE conjE)
  then show ?thesis
    unfolding j1 j2 by (intro exI[of _ p] exI[of _ r] conjI)
qed

text \<open>
  Claim C10. Whenever \<open>SendBasicEmail\<close> gets as far as a payload, the payload has both
  keys \<open>html\<close> and \<open>plain\<close>; a body that was not set is there as a \<open>nil\<close> pointer, which
  is written as \<open>null\<close>.
\<close>

theorem basicEmailPayload_html_plain:
  assumes "basicEmailPayload rnd data = Inr p"
  shows "p ''html'' = Some (AStringPtr (BasicEmailData.HTML data))
       \<and> p ''plain'' = Some (AStringPtr (BasicEmailData.Plain data))
       \<and> (BasicEmailData.HTML data = None \<longrightarrow> p ''html'' = Some (AStringPtr None))
       \<and> (BasicEmailData.Plain data = None \<longrightarrow> p ''plain'' = Some (AStringPtr None))"
  using assms
  by (auto simp: basicEmailPayload_def Let_def split: sum.splits if_splits)

theorem basicEmailPayload_html_plain_witness:
  "basicEmailPayload (Secure (\<lambda>i. CHR 0x2A)) sampleData =
     Inr [''subject'' \<mapsto> AString ''Hi'',
          ''from'' \<mapsto> AStringMap (ToJSON (BasicEmailData.From sampleData)),
          ''to'' \<mapsto> AStringMaps [ToJSON \<lparr>Address = ''a@b.com'', DisplayName = None\<rparr>],
          ''reference_id'' \<mapsto> AString (GetReferenceID (Secure (\<lambda>i. CHR 0x2A))),
          ''html'' \<mapsto> AStringPtr (Some ''<p>x</p>''),
          ''plain'' \<mapsto> AStringPtr None]
   \<and> BasicEmailData.Plain sampleData = None
   \<and> [''subject'' \<mapsto> AString ''Hi'',
          ''from'' \<mapsto> AStringMap (ToJSON (BasicEmailData.From sampleData)),
          ''to'' \<mapsto> AStringMaps [ToJSON \<lparr>Address = ''a@b.com'', DisplayName = None\<rparr>],
          ''reference_id'' \<mapsto> AString (GetReferenceID (Secure (\<lambda>i. CHR 0x2A))),
          ''html'' \<mapsto> AStringPtr (Some ''<p>x</p>''),
          ''plain'' \<mapsto> AStringPtr None] ''plain'' = Some (AStringPtr None)"
proof -
  have p: "basicEmailPayload (Secure (\<lambda>i. CHR 0x2A)) sampleData =
     Inr [''subject'' \<mapsto> AString ''Hi'',
          ''from'' \<mapsto> AStringMap (ToJSON (BasicEmailData.From sampleData)),
          ''to'' \<mapsto> AStringMaps [ToJSON \<lparr>Address = ''a@b.com'', DisplayName = None\<rparr>],
          ''reference_id'' \<mapsto> AString (GetReferenceID (Secure (\<lambda>i. CHR 0x2A))),
          ''html'' \<mapsto> AStringPtr (Some ''<p>x</p>''),
          ''plain'' \<mapsto> AStringPtr None]"
    using basicEmailPayload_minimal[of sampleData "\<lparr>Address = ''a@b.com'', DisplayName = None\<rparr>"
        "Secure (\<lambda>i. CHR 0x2A)"]
    by (simp add: sampleData_def)
  have n: "BasicEmailData.Plain sampleData = None" by (simp add: sampleData_def)
  from basicEmailPayload_html_plain[OF p] p n show ?thesis by simp
qed


lemma requireSubject_error: "requireSubject s = Some e \<Longrightarrow> \<not> bulkCheckError e"
  by (auto simp: requireSubject_def split: if_splits)

lemma validateAssociativeMap_error:
  "validateAssociativeMap m label = Some e \<Longrightarrow> \<not> bulkCheckError e"
  by (induction m label rule: validateAssociativeMap.induct) (auto split: if_splits)

lemma validateAttachments_error:
  "validateAttachments arr atts = Inl e \<Longrightarrow> \<not> bulkCheckError e"
  by (induction arr atts rule: validateAttachments.induct)
     (auto simp: validate_def split: if_splits option.splits)

lemma normalizeBulkMessages_error:
  "normalizeBulkMessages rnd i ms = Inl e \<Longrightarrow> \<not> bulkCheckError e"
proof (induction ms arbitrary: rnd i)
  case Nil
  then show ?case by simp
next
  case (Cons m ms)
  then show ?case
    by (auto simp: Let_def split: if_splits option.splits sum.splits)
qed


lemma bulk_subject:
  "requireSubject (BulkEmailData.Subject data) = Some e \<Longrightarrow> bulkEmailPayload rnd data = Inl e"
  by (simp add: bulkEmailPayload_def)

lemma bulk_no_body:
  "requireSubject (BulkEmailData.Subject data) = None \<Longrightarrow>
   BulkEmailData.HTML data = None \<Longrightarrow> BulkEmailData.Plain data = None \<Longrightarrow> TemplateID data = None \<Longrightarrow>
   bulkEmailPayload rnd data = Inl ErrBulkBodyRequired"
  by (simp add: bulkEmailPayload_def Let_def)

lemma bulk_conflict:
  "requireSubject (BulkEmailData.Subject data) = None \<Longrightarrow>
   TemplateID data \<noteq> None \<Longrightarrow> BulkEmailData.HTML data \<noteq> None \<or> BulkEmailData.Plain data \<noteq> None \<Longrightarrow>
   bulkEmailPayload rnd data = Inl ErrBulkBodyConflict"
  by (auto simp: bulkEmailPayload_def Let_def)

lemma bulk_empty:
  "requireSubject (BulkEmailData.Subject data) = None \<Longrightarrow> oneBodyMode data \<Longrightarrow>
   length (Messages data) = 0 \<Longrightarrow> bulkEmailPayload rnd data = Inl ErrMessagesEmpty"
  by (auto simp: bulkEmailPayload_def Let_def oneBodyMode_def)

lemma bulk_too_many:
  "requireSubject (BulkEmailData.Subject data) = None \<Longrightarrow> oneBodyMode data \<Longrightarrow>
   500 < length (Messages data) \<Longrightarrow> bulkEmailPayload rnd data = Inl ErrMessagesTooMany"
  by (auto simp: bulkEmailPayload_def Let_def oneBodyMode_def maxBulkMessages_def)

lemma bulk_rest:
  assumes "requireSubject (BulkEmailData.Subject data) = None" and "oneBodyMode data"
    and "0 < length (Messages data)" and "length (Messages data) \<le> 500"
    and "bulkEmailPayload rnd data = Inl e"
  shows "\<not> bulkCheckError e"
proof -
  let ?tags = "case BulkEmailData.Tags data of
                 Some tags \<Rightarrow> validateAssociativeMap tags ''tags'' | None \<Rightarrow> None"
  let ?headers = "case BulkEmailData.Headers data of
                 Some headers \<Rightarrow> validateAssociativeMap headers ''headers'' | None \<Rightarrow> None"
  let ?atts = "if 0 < length (BulkEmailData.Attachments data)
               then validateAttachments [] (BulkEmailData.Attachments data) else Inr []"
  let ?msgs = "normalizeBulkMessages rnd 0 (Messages data)"
  have checks: "\<not> ((BulkEmailData.HTML data = None \<and> BulkEmailData.Plain data = None) \<and> TemplateID data = None)"
    "\<not> (TemplateID data \<noteq> None \<and> (BulkEmailData.HTML data \<noteq> None \<or> BulkEmailData.Plain data \<noteq> None))"
    "length (Messages data) \<noteq> 0" "\<not> maxBulkMessages < length (Messages data)"
    using assms(2-4) by (auto simp: oneBodyMode_def maxBulkMessages_def)
  have "?tags = Some e \<or> ?headers = Some e \<or> ?atts = Inl e \<or> ?msgs = Inl e"
    using assms(5) assms(1) checks
    by (simp add: bulkEmailPayload_def Let_def split: option.splits sum.splits if_splits)
  then show ?thesis
    using validateAssociativeMap_error validateAttachments_error normalizeBulkMessages_error
    by (auto split: option.splits if_splits)
qed


lemma SendBulkEmails_Inl:
  "bulkEmailPayload rnd data = Inl e \<Longrightarrow> SendBulkEmails sendRequest rnd data = Inl e"
  by (simp add: SendBulkEmails_def)

lemma requireSubject_ErrSubject: "requireSubject s = Some e \<Longrightarrow> e = ErrSubject"
  by (auto simp: requireSubject_def split: if_splits)

lemma body_mode_cases:
  "(BulkEmailData.HTML data = None \<and> BulkEmailData.Plain data = None \<and> TemplateID data = None)
   \<or> (TemplateID data \<noteq> None \<and> (BulkEmailData.HTML data \<noteq> None \<or> BulkEmailData.Plain data \<noteq> None))
   \<or> oneBodyMode data"
  by (auto simp: oneBodyMode_def)

lemma bulk_one_mode:
  assumes "oneBodyMode data"
  shows "bulkEmailPayload rnd data \<noteq> Inl ErrBulkBodyRequired
       \<and> bulkEmailPayload rnd data \<noteq> Inl ErrBulkBodyConflict"
proof (cases "requireSubject (BulkEmailData.Subject data)")
  case (Some e)
  then show ?thesis
    using bulk_subject[OF Some, of rnd] requireSubject_ErrSubject[OF Some] by simp
next
  case None
  consider "length (Messages data) = 0" | "500 < length (Messages data)"
    | "0 < length (Messages data)" "length (Messages data) \<le> 500"
    by linarith
  then show ?thesis
  proof cases
    case 1
    then show ?thesis using bulk_empty[OF None assms, of rnd] by simp
  next
    case 2
    then show ?thesis using bulk_too_many[OF None assms, of rnd] by simp
  next
    case 3
    then show ?thesis using bulk_rest[OF None assms 3, of rnd] by fastforce
  qed
qed

lemma bulk_no_body_fails:
  assumes "BulkEmailData.HTML data = None" "BulkEmailData.Plain data = None" "TemplateID data = None"
  shows "\<exists>e. bulkEmailPayload rnd data = Inl e \<and> (e = ErrSubject \<or> e = ErrBulkBodyRequired)"
proof (cases "requireSubject (BulkEmailData.Subject data)")
  case (Some e)
  then show ?thesis
    using bulk_subject[OF Some, of rnd] requireSubject_ErrSubject[OF Some] by simp
next
  case None
  then show ?thesis using bulk_no_body[OF None assms, of rnd] by simp
qed

lemma bulk_conflict_fails:
  assumes "TemplateID data \<noteq> None" "BulkEmailData.HTML data \<noteq> None \<or> BulkEmailData.Plain data \<noteq> None"
  shows "\<exists>e. bulkEmailPayload rnd data = Inl e \<and> (e = ErrSubject \<or> e = ErrBulkBodyConflict)"
proof (cases "requireSubject (BulkEmailData.Subject data)")
  case (Some e)
  then show ?thesis
    using bulk_subject[OF Some, of rnd] requireSubject_ErrSubject[OF Some] by simp
next
  case None
  then show ?thesis using bulk_conflict[OF None assms, of rnd] by simp
qed

text \<open>
  Claim C6. \<open>SendBulkEmails\<close> returns an error before the call of \<open>sendRequest\<close>, whatever
  the transport, when none of html, plain and template id is set, and when a template id
  is set together with html or plain: the error is that of the body-mode check, or that
  of the subject check made before it. A request with exactly one body mode does not
  fail with either of the two body-mode errors.
\<close>

theorem SendBulkEmails_body_mode:
  "(BulkEmailData.HTML data = None \<and> BulkEmailData.Plain data = None \<and> TemplateID data = None \<longrightarrow>
      (\<exists>e. bulkEmailPayload rnd data = Inl e \<and> SendBulkEmails sendRequest rnd data = Inl e
           \<and> (e = ErrSubject \<or> e = ErrBulkBodyRequired)))
   \<and> (TemplateID data \<noteq> None
        \<and> (BulkEmailData.HTML data \<noteq> None \<or> BulkEmailData.Plain data \<noteq> None) \<longrightarrow>
      (\<exists>e. bulkEmailPayload rnd data = Inl e \<and> SendBulkEmails sendRequest rnd data = Inl e
           \<and> (e = ErrSubject \<or> e = ErrBulkBodyConflict)))
   \<and> (oneBodyMode data \<longrightarrow>
        bulkEmailPayload rnd data \<noteq> Inl ErrBulkBodyRequired
        \<and> bulkEmailPayload rnd data \<noteq> Inl ErrBulkBodyConflict)"
proof (intro conjI impI)
  assume "BulkEmailData.HTML data = None \<and> BulkEmailData.Plain data = None \<and> TemplateID data = None"
  then obtain e where "bulkEmailPayload rnd data = Inl e" "e = ErrSubject \<or> e = ErrBulkBodyRequired"
    using bulk_no_body_fails[of data rnd] by blast
  then show "\<exists>e. bulkEmailPayload rnd data = Inl e \<and> SendBulkEmails sendRequest rnd data = Inl e
           \<and> (e = ErrSubject \<or> e = ErrBulkBodyRequired)"
    using SendBulkEmails_Inl by blast
next
  assume "TemplateID data \<noteq> None
        \<and> (BulkEmailData.HTML data \<noteq> None \<or> BulkEmailData.Plain data \<noteq> None)"
  then obtain e where "bulkEmailPayload rnd data = Inl e" "e = ErrSubject \<or> e = ErrBulkBodyConflict"
    using bulk_conflict_fails[of data rnd] by blast
  then show "\<exists>e. bulkEmailPayload rnd data = Inl e \<and> SendBulkEmails sendRequest rnd data = Inl e
           \<and> (e = ErrSubject \<or> e = ErrBulkBodyConflict)"
    using SendBulkEmails_Inl by blast
next
  assume "oneBodyMode data"
  then show "bulkEmailPayload rnd data \<noteq> Inl ErrBulkBodyRequired"
    using bulk_one_mode by blast
next
  assume "oneBodyMode data"
  then show "bulkEmailPayload rnd data \<noteq> Inl ErrBulkBodyConflict"
    using bulk_one_mode by blast
qed


theorem SendBulkEmails_body_mode_witness:
  "(\<exists>e. bulkEmailPayload sampleEntropy (sampleBulk None None None [sampleMessage]) = Inl e
        \<and> SendBulkEmails (\<lambda>m p b. Inl (ErrRequest [])) sampleEntropy
             (sampleBulk None None None [sampleMessage]) = Inl e
        \<and> (e = ErrSubject \<or> e = ErrBulkBodyRequired))
   \<and> (\<exists>e. bulkEmailPayload sampleEntropy
             (sampleBulk (Some ''<p>x</p>'') None (Some 2549) [sampleMessage]) = Inl e
        \<and> SendBulkEmails (\<lambda>m p b. Inl (ErrRequest [])) sampleEntropy
             (sampleBulk (Some ''<p>x</p>'') None (Some 2549) [sampleMessage]) = Inl e
        \<and> (e = ErrSubject \<or> e = ErrBulkBodyConflict))
   \<and> oneBodyMode (sampleBulk (Some ''<p>x</p>'') (Some ''x'') None [sampleMessage])
   \<and> bulkEmailPayload sampleEntropy (sampleBulk (Some ''<p>x</p>'') (Some ''x'') None [sampleMessage])
       \<noteq> Inl ErrBulkBodyRequired
   \<and> bulkEmailPayload sampleEntropy (sampleBulk (Some ''<p>x</p>'') (Some ''x'') None [sampleMessage])
       \<noteq> Inl ErrBulkBodyConflict
   \<and> oneBodyMode (sampleBulk None None (Some 2549) [sampleMessage])
   \<and> bulkEmailPayload sampleEntropy (sampleBulk None None (Some 2549) [sampleMessage])
       \<noteq> Inl ErrBulkBodyRequired
   \<and> bulkEmailPayload sampleEntropy (sampleBulk None None (Some 2549) [sampleMessage])
       \<noteq> Inl ErrBulkBodyConflict"
proof -
  let ?send = "(\<lambda>m p b. Inl (ErrRequest [])) :: transport"
  let ?d1 = "sampleBulk None None None [sampleMessage]"
  let ?d2 = "sampleBulk (Some ''<p>x</p>'') None (Some 2549) [sampleMessage]"
  let ?d3 = "sampleBulk (Some ''<p>x</p>'') (Some ''x'') None [sampleMessage]"
  let ?d4 = "sampleBulk None None (Some 2549) [sampleMessage]"
  have h1: "BulkEmailData.HTML ?d1 = None \<and> BulkEmailData.Plain ?d1 = None \<and> TemplateID ?d1 = None"
    by (simp add: sampleBulk_def)
  have h2: "TemplateID ?d2 \<noteq> None
        \<and> (BulkEmailData.HTML ?d2 \<noteq> None \<or> BulkEmailData.Plain ?d2 \<noteq> None)"
    by (simp add: sampleBulk_def)
  have h3: "oneBodyMode ?d3" by (simp add: oneBodyMode_def sampleBulk_def)
  have h4: "oneBodyMode ?d4" by (simp add: oneBodyMode_def sampleBulk_def)
  note t1 = SendBulkEmails_body_mode[of ?d1 sampleEntropy ?send]
  note t2 = SendBulkEmails_body_mode[of ?d2 sampleEntropy ?send]
  note t3 = SendBulkEmails_body_mode[of ?d3 sampleEntropy ?send]
  note t4 = SendBulkEmails_body_mode[of ?d4 sampleEntropy ?send]
  note c1 = t1[THEN conjunct1, THEN mp, OF h1]
  note c2 = t2[THEN conjunct2, THEN conjunct1, THEN mp, OF h2]
  note c3 = t3[THEN conjunct2, THEN conjunct2, THEN mp, OF h3]
  note c4 = t4[THEN conjunct2, THEN conjunct2, THEN mp, OF h4]
  from c1 c2 h3 c3 h4 c4 show ?thesis by simp
qed

lemma bulk_fails_with:
  assumes "bulkEmailPayload rnd data = Inl e" and "e = ErrSubject \<or> bulkCheckError e"
  shows "\<exists>e. bulkEmailPayload rnd data = Inl e \<and> (e = ErrSubject \<or> bulkCheckError e)"
  using assms by (intro exI[of _ e] conjI)

lemma bulk_bad_count_fails:
  assumes "length (Messages data) = 0 \<or> 500 < length (Messages data)"
  shows "\<exists>e. bulkEmailPayload rnd data = Inl e \<and> (e = ErrSubject \<or> bulkCheckError e)"
proof (cases "requireSubject (BulkEmailData.Subject data)")
  case (Some e)
  have "bulkEmailPayload rnd data = Inl e" by (rule bulk_subject[OF Some])
  moreover have "e = ErrSubject \<or> bulkCheckError e"
    by (rule disjI1) (rule requireSubject_ErrSubject[OF Some])
  ultimately show ?thesis by (rule bulk_fails_with)
next
  case None
  consider "BulkEmailData.HTML data = None \<and> BulkEmailData.Plain data = None \<and> TemplateID data = None"
    | "TemplateID data \<noteq> None \<and> (BulkEmailData.HTML data \<noteq> None \<or> BulkEmailData.Plain data \<noteq> None)"
    | "oneBodyMode data"
    using body_mode_cases by blast
  then show ?thesis
  proof cases
    case 1
    then have "bulkEmailPayload rnd data = Inl ErrBulkBodyRequired"
      using bulk_no_body[OF None] by simp
    moreover have "ErrBulkBodyRequired = ErrSubject \<or> bulkCheckError ErrBulkBodyRequired" by simp
    ultimately show ?thesis by (rule bulk_fails_with)
  next
    case 2
    then have "bulkEmailPayload rnd data = Inl ErrBulkBodyConflict"
      using bulk_conflict[OF None] by simp
    moreover have "ErrBulkBodyConflict = ErrSubject \<or> bulkCheckError ErrBulkBodyConflict" by simp
    ultimately show ?thesis by (rule bulk_fails_with)
  next
    case 3
    from assms show ?thesis
    proof
      assume "length (Messages data) = 0"
      then have "bulkEmailPayload rnd data = Inl ErrMessagesEmpty"
        by (rule bulk_empty[OF None 3])
      moreover have "ErrMessagesEmpty = ErrSubject \<or> bulkCheckError ErrMessagesEmpty" by simp
      ultimately show ?thesis by (rule bulk_fails_with)
    next
      assume "500 < length (Messages data)"
      then have "bulkEmailPayload rnd data = Inl ErrMessagesTooMany"
        by (rule bulk_too_many[OF None 3])
      moreover have "ErrMessagesTooMany = ErrSubject \<or> bulkCheckError ErrMessagesTooMany" by simp
      ultimately show ?thesis by (rule bulk_fails_with)
    qed
  qed
qed

lemma bulk_good_count:
  assumes "0 < length (Messages data)" "length (Messages data) \<le> 500"
  shows "bulkEmailPayload rnd data \<noteq> Inl ErrMessagesEmpty
       \<and> bulkEmailPayload rnd data \<noteq> Inl ErrMessagesTooMany"
proof (cases "requireSubject (BulkEmailData.Subject data)")
  case (Some e)
  then show ?thesis
    using bulk_subject[OF Some, of rnd] requireSubject_ErrSubject[OF Some] by simp
next
  case None
  consider "BulkEmailData.HTML data = None \<and> BulkEmailData.Plain data = None \<and> TemplateID data = None"
    | "TemplateID data \<noteq> None \<and> (BulkEmailData.HTML data \<noteq> None \<or> BulkEmailData.Plain data \<noteq> None)"
    | "oneBodyMode data"
    using body_mode_cases by blast
  then show ?thesis
  proof cases
    case 1
    then show ?thesis using bulk_no_body[OF None, of rnd] by simp
  next
    case 2
    then show ?thesis using bulk_conflict[OF None, of rnd] by simp
  next
    case 3
    then show ?thesis using bulk_rest[OF None 3 assms, of rnd] by fastforce
  qed
qed

text \<open>
  Claim C7. \<open>SendBulkEmails\<close> returns an error before the call of \<open>sendRequest\<close> when the
  list of messages is empty or has more than 500 messages; once the subject and the body
  mode are in order the error is that of the count check. A list of exactly 500 messages
  does not fail with either of the two count errors.
\<close>

theorem SendBulkEmails_message_count:
  "(length (Messages data) = 0 \<or> 500 < length (Messages data) \<longrightarrow>
      (\<exists>e. bulkEmailPayload rnd data = Inl e \<and> SendBulkEmails sendRequest rnd data = Inl e
           \<and> (e = ErrSubject \<or> bulkCheckError e)))
   \<and> (requireSubject (BulkEmailData.Subject data) = None \<and> oneBodyMode data
        \<and> length (Messages data) = 0 \<longrightarrow>
      bulkEmailPayload rnd data = Inl ErrMessagesEmpty)
   \<and> (requireSubject (BulkEmailData.Subject data) = None \<and> oneBodyMode data
        \<and> 500 < length (Messages data) \<longrightarrow>
      bulkEmailPayload rnd data = Inl ErrMessagesTooMany)
   \<and> (length (Messages data) = 500 \<longrightarrow>
      bulkEmailPayload rnd data \<noteq> Inl ErrMessagesEmpty
      \<and> bulkEmailPayload rnd data \<noteq> Inl ErrMessagesTooMany)"
proof (intro conjI impI)
  assume "length (Messages data) = 0 \<or> 500 < length (Messages data)"
  then obtain e where "bulkEmailPayload rnd data = Inl e" "e = ErrSubject \<or> bulkCheckError e"
    using bulk_bad_count_fails by blast
  then show "\<exists>e. bulkEmailPayload rnd data = Inl e \<and> SendBulkEmails sendRequest rnd data = Inl e
           \<and> (e = ErrSubject \<or> bulkCheckError e)"
    using SendBulkEmails_Inl by blast
next
  assume "requireSubject (BulkEmailData.Subject data) = None \<and> oneBodyMode data
        \<and> length (Messages data) = 0"
  then show "bulkEmailPayload rnd data = Inl ErrMessagesEmpty"
    using bulk_empty by blast
next
  assume "requireSubject (BulkEmailData.Subject data) = None \<and> oneBodyMode data
        \<and> 500 < length (Messages data)"
  then show "bulkEmailPayload rnd data = Inl ErrMessagesTooMany"
    using bulk_too_many by blast
next
  assume "length (Messages data) = 500"
  then show "bulkEmailPayload rnd data \<noteq> Inl ErrMessagesEmpty"
    using bulk_good_count[of data rnd] by simp
next
  assume "length (Messages data) = 500"
  then show "bulkEmailPayload rnd data \<noteq> Inl ErrMessagesTooMany"
    using bulk_good_count[of data rnd] by simp
qed

lemma normalizeBulkMessages_plain:
  assumes "list_all (\<lambda>m. BulkMessage.To m \<noteq> [] \<and> BulkMessage.ReferenceID m = None
                       \<and> TemplateData m = None) ms"
  shows "\<exists>out. normalizeBulkMessages rnd i ms = Inr out \<and> length out = length ms"
  using assms
proof (induction ms arbitrary: rnd i)
  case Nil
  show ?case by simp
next
  case (Cons m ms)
  from Cons.prems have "list_all (\<lambda>m. BulkMessage.To m \<noteq> [] \<and> BulkMessage.ReferenceID m = None
                       \<and> TemplateData m = None) ms"
    by simp
  from Cons.IH[OF this, of "\<lambda>k. rnd (Suc k)" "i + 1"]
  obtain out where "normalizeBulkMessages (\<lambda>k. rnd (Suc k)) (i + 1) ms = Inr out"
    "length out = length ms" by blast
  then show ?case using Cons.prems by (simp add: Let_def)
qed

lemma sampleBulk_accepted:
  assumes "0 < n" "n \<le> 500"
  shows "\<exists>p msgs. bulkEmailPayload sampleEntropy
            (sampleBulk (Some ''<p>x</p>'') None None (replicate n sampleMessage)) = Inr p
          \<and> p ''messages'' = Some (AMaps msgs) \<and> length msgs = n"
proof -
  have "list_all (\<lambda>m. BulkMessage.To m \<noteq> [] \<and> BulkMessage.ReferenceID m = None
                       \<and> TemplateData m = None) (replicate n sampleMessage)"
    by (simp add: list_all_iff sampleMessage_def)
  from normalizeBulkMessages_plain[OF this, of sampleEntropy 0]
  obtain out where "normalizeBulkMessages sampleEntropy 0 (replicate n sampleMessage) = Inr out"
    "length out = n" by auto
  then show ?thesis
    using assms
    by (simp add: bulkEmailPayload_def sampleBulk_def Let_def requireSubject_Hi
        maxBulkMessages_def)
qed

theorem SendBulkEmails_message_count_witness:
  "length (Messages (sampleBulk (Some ''<p>x</p>'') None None (replicate 500 sampleMessage))) = 500
   \<and> bulkEmailPayload sampleEntropy
        (sampleBulk (Some ''<p>x</p>'') None None (replicate 500 sampleMessage))
       \<noteq> Inl ErrMessagesEmpty
   \<and> bulkEmailPayload sampleEntropy
        (sampleBulk (Some ''<p>x</p>'') None None (replicate 500 sampleMessage))
       \<noteq> Inl ErrMessagesTooMany
   \<and> (\<exists>p msgs. bulkEmailPayload sampleEntropy
          (sampleBulk (Some ''<p>x</p>'') None None (replicate 500 sampleMessage)) = Inr p
        \<and> p ''messages'' = Some (AMaps msgs) \<and> length msgs = 500)
   \<and> bulkEmailPayload sampleEntropy
        (sampleBulk (Some ''<p>x</p>'') None None (replicate 501 sampleMessage))
       = Inl ErrMessagesTooMany
   \<and> bulkEmailPayload sampleEntropy (sampleBulk (Some ''<p>x</p>'') None None [])
       = Inl ErrMessagesEmpty
   \<and> (\<exists>e. bulkEmailPayload sampleEntropy (sampleBulk (Some ''<p>x</p>'') None None []) = Inl e
        \<and> SendBulkEmails (\<lambda>m p b. Inl (ErrRequest [])) sampleEntropy
             (sampleBulk (Some ''<p>x</p>'') None None []) = Inl e
        \<and> (e = ErrSubject \<or> bulkCheckError e))"
proof -
  let ?send = "(\<lambda>m p b. Inl (ErrRequest [])) :: transport"
  let ?d500 = "sampleBulk (Some ''<p>x</p>'') None None (replicate 500 sampleMessage)"
  let ?d501 = "sampleBulk (Some ''<p>x</p>'') None None (replicate 501 sampleMessage)"
  let ?d0 = "sampleBulk (Some ''<p>x</p>'') None None []"
  have l500: "length (Messages ?d500) = 500" by (simp add: sampleBulk_def)
  have h501: "requireSubject (BulkEmailData.Subject ?d501) = None \<and> oneBodyMode ?d501
        \<and> 500 < length (Messages ?d501)"
    by (simp add: sampleBulk_def requireSubject_Hi oneBodyMode_def)
  have h0: "requireSubject (BulkEmailData.Subject ?d0) = None \<and> oneBodyMode ?d0
        \<and> length (Messages ?d0) = 0"
    by (simp add: sampleBulk_def requireSubject_Hi oneBodyMode_def)
  have b0: "length (Messages ?d0) = 0 \<or> 500 < length (Messages ?d0)"
    by (simp add: sampleBulk_def)
  note t500 = SendBulkEmails_message_count[of ?d500 sampleEntropy ?send]
  note t501 = SendBulkEmails_message_count[of ?d501 sampleEntropy ?send]
  note t0 = SendBulkEmails_message_count[of ?d0 sampleEntropy ?send]
  note c1 = t500[THEN conjunct2, THEN conjunct2, THEN conjunct2, THEN mp, OF l500]
  have c2: "\<exists>p msgs. bulkEmailPayload sampleEntropy ?d500 = Inr p
        \<and> p ''messages'' = Some (AMaps msgs) \<and> length msgs = 500"
    by (rule sampleBulk_accepted) simp_all
  note c3 = t501[THEN conjunct2, THEN conjunct2, THEN conjunct1, THEN mp, OF h501]
  note c4 = t0[THEN conjunct2, THEN conjunct1, THEN mp, OF h0]
  note c5 = t0[THEN conjunct1, THEN mp, OF b0]
  from l500 c1 c2 c3 c4 c5 show ?thesis by simp
qed

section \<open>The send-time check of attachments\<close>

lemma TrimSpace_a_txt: "TrimSpace ''a.txt'' \<noteq> []"
proof -
  have "TrimSpace ''a.txt'' = ''a.txt''"
    by (rule TrimSpace_keep) (simp_all add: byte_def RuneSelf_def asciiSpace_def)
  then show ?thesis by simp
qed

lemma TrimSpace_text_plain: "TrimSpace ''text/plain'' \<noteq> []"
proof -
  have "TrimSpace ''text/plain'' = ''text/plain''"
    by (rule TrimSpace_keep) (simp_all add: byte_def RuneSelf_def asciiSpace_def)
  then show ?thesis by simp
qed

lemma TrimSpace_bangs: "TrimSpace ''!!!'' \<noteq> []"
proof -
  have "TrimSpace ''!!!'' = ''!!!''"
    by (rule TrimSpace_keep) (simp_all add: byte_def RuneSelf_def asciiSpace_def)
  then show ?thesis by simp
qed

text \<open>
  Claim C3. The send-time check \<open>validate\<close> looks at the file name, the content and the
  content type for blankness only. Content that is not valid base64 passes it, and the
  request builder copies the attachment into the payload, while \<open>NewAttachment\<close> rejects
  the same input.
\<close>

theorem validate_accepts_invalid_base64:
  "base64_DecodeString ''!!!'' = None
   \<and> validate \<lparr>FileName = ''a.txt'', ContentType = ''text/plain'', Content = ''!!!'',
                 Inline = False\<rparr> = None
   \<and> NewAttachment ''a.txt'' ''!!!'' ''text/plain'' False = Inl ErrInvalidBase64
   \<and> (\<exists>p. basicEmailPayload rnd
              (sampleData\<lparr>BasicEmailData.Attachments :=
                 [\<lparr>FileName = ''a.txt'', ContentType = ''text/plain'', Content = ''!!!'',
                    Inline = False\<rparr>]\<rparr>) = Inr p
          \<and> p ''attachments'' =
              Some (AAttachments [\<lparr>FileName = ''a.txt'', ContentType = ''text/plain'',
                                    Content = ''!!!'', Inline = False\<rparr>]))"
proof -
  let ?att = "\<lparr>FileName = ''a.txt'', ContentType = ''text/plain'', Content = ''!!!'',
                 Inline = False\<rparr>"
  have v: "validate ?att = None"
    using TrimSpace_a_txt TrimSpace_text_plain TrimSpace_bangs
    by (simp add: validate_def del: TrimSpace.simps)
  have n: "NewAttachment ''a.txt'' ''!!!'' ''text/plain'' False = Inl ErrInvalidBase64"
    using TrimSpace_a_txt TrimSpace_bangs
    by (simp add: NewAttachment_def DecodeString_bangs del: TrimSpace.simps)
  have p: "\<exists>p. basicEmailPayload rnd (sampleData\<lparr>BasicEmailData.Attachments := [?att]\<rparr>) = Inr p
          \<and> p ''attachments'' = Some (AAttachments [?att])"
    using v
    by (simp add: basicEmailPayload_def buildBasePayload_def Let_def sampleData_def
        requireSubject_Hi del: TrimSpace.simps)
  from DecodeString_bangs v n p show ?thesis by (intro conjI)
qed

end
